theory Spec2Isabelle
  imports
    Complex_Main
    "HOL-Library.Char_ord"
    "HOL-Library.List_Lexorder"
    "HOL-Library.Product_Lexorder"
    "HOL-Library.Sublist"
    "HOL-Library.Log_Nat"
    "HOL-Library.AList"
begin

chapter \<open>The logistics dashboard front-end: model\<close>

text \<open>
  A shallow embedding of the decision logic of the React front-end: the route table and
  its role guard, the report page's filter and chart aggregation, the paginated list
  pages, and the form handlers that talk to the REST backend and to Traccar.

  Conventions. A JavaScript string is a \<^typ>\<open>string\<close>; \<open>null\<close> and \<open>undefined\<close> are
  \<^term>\<open>None\<close>; identifiers, counts and page numbers are integers or naturals. A string
  comparison with \<open><\<close> is the lexicographic order on code units, which is the order of
  \<^typ>\<open>char list\<close> here. A handler is a function of the component state and of what its
  environment answers (the confirm dialog, the HTTP responses); it returns the new state
  together with the effects it issued, in order.
\<close>

section \<open>JavaScript values\<close>

text \<open>A string is truthy when it is present and not empty.\<close>

definition truthy :: "string option \<Rightarrow> bool" where
  "truthy v = (case v of None \<Rightarrow> False | Some s \<Rightarrow> s \<noteq> [])"

section \<open>The role guard (routes/RoleProtectedRoute.tsx)\<close>

datatype AllowedRole = Administrador | Conductor









section \<open>The route table (routes/Router.tsx)\<close>

text \<open>
  A page component is either wrapped as \<open>Loadable(lazy(() => import(p)))\<close> or imported
  statically (\<open>Home\<close>). A route element renders a component, is a bare \<open>Navigate\<close>, or is
  a \<open>RoleProtectedRoute\<close> around another element.
\<close>

datatype component = Lazy string | Static string

datatype element =
    Page component
  | NavigateTo string
  | Guarded "AllowedRole list" element

datatype RouteObject =
  RouteObject (path: string) (exact: "bool option") (element: element)
    (children: "RouteObject list")

definition withRoleGuard :: "element \<Rightarrow> AllowedRole list \<Rightarrow> element" where
  "withRoleGuard el roles = Guarded roles el"

definition leaf :: "string \<Rightarrow> bool option \<Rightarrow> element \<Rightarrow> RouteObject" where
  "leaf p e el = RouteObject p e el []"

definition Router :: "RouteObject list" where
  "Router =
    [ RouteObject ''/'' None (Page (Lazy ''../layouts/blank/BlankLayout''))
        [ leaf ''/'' (Some True) (Page (Lazy ''../views/landing/Welcome'')),
          leaf ''/auth/login'' None (Page (Lazy ''../views/auth/login/Login'')),
          leaf ''/auth/register'' None (Page (Lazy ''../views/auth/register/Register'')),
          leaf ''404'' None (Page (Lazy ''../views/auth/error/Error'')),
          leaf ''/auth/404'' None (Page (Lazy ''../views/auth/error/Error'')) ],
      RouteObject ''/'' None (Page (Lazy ''../layouts/full/FullLayout''))
        [ leaf ''/inicio'' (Some True) (Page (Static ''../views/home/Home'')),
          leaf ''/ui/typography'' (Some True) (Page (Lazy ''../views/typography/Typography'')),
          leaf ''/ui/table'' (Some True) (Page (Lazy ''../views/tables/Table'')),
          leaf ''/ui/form'' (Some True) (Page (Lazy ''../views/forms/Form'')),
          leaf ''/ui/alert'' (Some True) (Page (Lazy ''../views/alerts/Alerts'')),
          leaf ''/ui/buttons'' (Some True) (Page (Lazy ''../views/buttons/Buttons'')),
          leaf ''/icons/solar'' (Some True) (Page (Lazy ''../views/icons/Solar'')),
          leaf ''/menu/vehiculos'' (Some True)
            (withRoleGuard (Page (Lazy ''../views/vehiculos/Vehiculos'')) [Administrador]),
          leaf ''/menu/vehiculos/nuevo'' (Some True)
            (withRoleGuard (Page (Lazy ''../views/vehiculos/VehiculoForm'')) [Administrador]),
          leaf ''/menu/dispositivos'' (Some True)
            (withRoleGuard (Page (Lazy ''../views/dispositivos/Dispositivos'')) [Administrador]),
          leaf ''/menu/conductores'' (Some True)
            (withRoleGuard (Page (Lazy ''../views/conductores/Conductores'')) [Administrador]),
          leaf ''/menu/entregas'' (Some True)
            (withRoleGuard (Page (Lazy ''../views/conductores/Entregas''))
               [Administrador, Conductor]),
          leaf ''/menu/entregas/:id/salidas'' (Some True)
            (withRoleGuard (Page (Lazy ''../views/conductores/ProgramacionSalidas''))
               [Administrador, Conductor]),
          leaf ''/menu/entregas/:id'' (Some True)
            (withRoleGuard (Page (Lazy ''../views/conductores/EntregaDetalle''))
               [Administrador, Conductor]),
          leaf ''/menu/entregas/:id/observacion/:productoId'' (Some True)
            (withRoleGuard (Page (Lazy ''../views/conductores/EntregaObservacion''))
               [Administrador, Conductor]),
          leaf ''/menu/programar-salida'' (Some True)
            (withRoleGuard (Page (Lazy ''../views/programar-salida/ProgramarSalida''))
               [Administrador]),
          leaf ''/menu/panel-monitoreo'' (Some True)
            (withRoleGuard (Page (Lazy ''../views/monitoreo/PanelMonitoreo'')) [Administrador]),
          leaf ''/menu/panel-monitoreo/salidas/:id'' (Some True)
            (withRoleGuard (Page (Lazy ''../views/monitoreo/SalidaDetalle'')) [Administrador]),
          leaf ''/menu/panel-monitoreo/salidas/:id/recorrido'' (Some True)
            (withRoleGuard (Page (Lazy ''../views/monitoreo/RecorridoMapa'')) [Administrador]),
          leaf ''/menu/panel-monitoreo/salidas/:id/detalle/:notaId'' (Some True)
            (withRoleGuard (Page (Lazy ''../views/monitoreo/NotaSalidaDetalle''))
               [Administrador]),
          leaf ''/menu/perfil'' (Some True) (Page (Lazy ''../views/profile/Profile'')),
          leaf ''/menu/reportes'' (Some True)
            (withRoleGuard (Page (Lazy ''../views/reportes/Reportes'')) [Administrador]),
          leaf ''/sample-page'' (Some True) (Page (Lazy ''../views/sample-page/SamplePage'')),
          leaf ''*'' None (NavigateTo ''/auth/404'') ] ]"

text \<open>Every route object of the table: the two layout routes and their children.\<close>

fun routes_below :: "RouteObject \<Rightarrow> RouteObject list" where
  "routes_below (RouteObject p e el cs) =
     RouteObject p e el cs # concat (map routes_below cs)"

definition all_routes :: "RouteObject list \<Rightarrow> RouteObject list" where
  "all_routes rs = concat (map routes_below rs)"

text \<open>The shapes of an element the claims speak of.\<close>

fun is_guarded :: "element \<Rightarrow> bool" where
  "is_guarded (Guarded roles el) = True"
| "is_guarded _ = False"

fun guard_roles :: "element \<Rightarrow> AllowedRole list" where
  "guard_roles (Guarded roles el) = roles"
| "guard_roles _ = []"

fun is_lazy_page :: "element \<Rightarrow> bool" where
  "is_lazy_page (Page (Lazy p)) = True"
| "is_lazy_page _ = False"

fun is_guarded_lazy :: "element \<Rightarrow> bool" where
  "is_guarded_lazy (Guarded roles el) = (roles \<noteq> [] \<and> is_lazy_page el)"
| "is_guarded_lazy _ = False"

section \<open>The report page (views/reportes/Reportes.tsx)\<close>

datatype EstadoReporte = entregado | en_proceso | no_entregado

text \<open>The state filter is \<open>'todos'\<close> or one of the three states.\<close>

datatype Estado = todos | solo EstadoReporte

record Programacion =
  id_rp :: string
  estado_rp :: EstadoReporte
  conductorId_rp :: "string option"
  conductorNombre_rp :: string
  fechaEntrega_rp :: "string option"

definition ESTADO_ORDER :: "EstadoReporte list" where
  "ESTADO_ORDER = [entregado, en_proceso, no_entregado]"

text \<open>The predicate of the \<open>filter\<close> call, with its two early returns.\<close>

definition keeps :: "Estado \<Rightarrow> string \<Rightarrow> Programacion \<Rightarrow> bool" where
  "keeps estado conductor item =
     (if estado \<noteq> todos \<and> solo (estado_rp item) \<noteq> estado then False
      else if conductor \<noteq> ''todos'' \<and> conductorId_rp item \<noteq> Some conductor then False
      else True)"

definition filteredProgramaciones ::
  "Programacion list \<Rightarrow> Estado \<Rightarrow> string \<Rightarrow> Programacion list" where
  "filteredProgramaciones programaciones estado conductor =
     filter (keeps estado conductor) programaciones"

section \<open>JavaScript numbers\<close>

text \<open>
  A JavaScript number is an IEEE 754 binary64 value. The counts of the report page are
  small integers, which binary64 holds exactly; a quotient of two of them and its product
  with 100 are rounded to the nearest binary64 value, ties to even. The values met here
  are positive and far inside the normal range, so the model rounds a positive rational
  to 53 significant bits and knows no overflow, subnormal or negative zero.
\<close>

definition round_half_even :: "rat \<Rightarrow> int" where
  "round_half_even x =
     (let f = \<lfloor>x\<rfloor>; d = x - of_int f
      in if d < 1 / 2 then f else if 1 / 2 < d then f + 1 else if even f then f else f + 1)"

definition scale2 :: "rat \<Rightarrow> int \<Rightarrow> rat" where
  "scale2 x k = (if 0 \<le> k then x * 2 ^ nat k else x / 2 ^ nat (- k))"

text \<open>\<open>ilog2 x\<close> is the exponent \<open>e\<close> with \<open>2 ^ e \<le> x < 2 ^ (e + 1)\<close>, for \<open>x > 0\<close>.\<close>

definition ilog2 :: "rat \<Rightarrow> int" where
  "ilog2 x =
     (let (n, d) = quotient_of x;
          s = bitlen n - bitlen d
      in if 1 \<le> scale2 x (- s) then s else s - 1)"

definition binary64 :: "rat \<Rightarrow> rat" where
  "binary64 x =
     (if x \<le> 0 then 0
      else let e = ilog2 x in scale2 (of_int (round_half_even (scale2 x (52 - e)))) (e - 52))"

definition js_div :: "rat \<Rightarrow> rat \<Rightarrow> rat" where
  "js_div a b = binary64 (a / b)"

definition js_mul :: "rat \<Rightarrow> rat \<Rightarrow> rat" where
  "js_mul a b = binary64 (a * b)"

text \<open>\<open>Math.round\<close>: the nearest integer, a tie going up.\<close>

definition Math_round :: "rat \<Rightarrow> int" where
  "Math_round x = \<lfloor>x + 1 / 2\<rfloor>"

section \<open>The report charts (views/reportes/Reportes.tsx, \<open>charts\<close>)\<close>

fun ESTADO_INFO_label :: "EstadoReporte \<Rightarrow> string" where
  "ESTADO_INFO_label entregado = ''Entregado''"
| "ESTADO_INFO_label en_proceso = ''En proceso''"
| "ESTADO_INFO_label no_entregado = ''No entregado''"

text \<open>
  \<open>Record<EstadoReporte, number>\<close> is a function on the three states. \<open>dateBuckets\<close> is
  an object used as a dictionary and \<open>driverTotals\<close> a \<open>Map\<close>: both are association
  lists in insertion order, the order in which \<open>Object.keys\<close> and \<open>Map.values\<close> list
  them. (The keys of \<open>dateBuckets\<close> are \<open>'sin-fecha'\<close> and the date strings that
  \<open>toDateOnly\<close> returns, which all contain a \<open>-\<close>: none is an array index, which
  \<open>Object.keys\<close> would list first, or a name inherited from \<open>Object.prototype\<close>.)
\<close>

record DateBucket =
  label_db :: string
  sortKey :: string
  counts :: "EstadoReporte \<Rightarrow> nat"

record DriverTotal =
  nombre :: string
  total :: nat
  entregados :: nat

record ChartsAcc =
  statusTotals_acc :: "EstadoReporte \<Rightarrow> nat"
  dateBuckets_acc :: "(string \<times> DateBucket) list"
  driverTotals_acc :: "(string \<times> DriverTotal) list"

definition charts_init :: ChartsAcc where
  "charts_init =
     \<lparr>statusTotals_acc = (\<lambda>e. 0), dateBuckets_acc = [], driverTotals_acc = []\<rparr>"

text \<open>\<open>c[e] += 1\<close>\<close>

definition incr :: "(EstadoReporte \<Rightarrow> nat) \<Rightarrow> EstadoReporte \<Rightarrow> EstadoReporte \<Rightarrow> nat" where
  "incr c e = c(e := c e + 1)"

text \<open>\<open>item.fechaEntrega ?? 'sin-fecha'\<close>\<close>

definition dateKey :: "Programacion \<Rightarrow> string" where
  "dateKey item = (case fechaEntrega_rp item of Some d \<Rightarrow> d | None \<Rightarrow> ''sin-fecha'')"

text \<open>
  The body of the \<open>forEach\<close>. \<open>formatShortDateLabel\<close> formats a date with
  \<open>Intl.DateTimeFormat\<close>; it only makes the label and is a parameter here.
\<close>

definition forEach_body ::
  "(string \<Rightarrow> string) \<Rightarrow> ChartsAcc \<Rightarrow> Programacion \<Rightarrow> ChartsAcc" where
  "forEach_body formatShortDateLabel acc item =
     (let statusTotals' = incr (statusTotals_acc acc) (estado_rp item);
          driverKey = (case conductorId_rp item of Some c \<Rightarrow> c | None \<Rightarrow> conductorNombre_rp item);
          deliveredIncrement = (if estado_rp item = entregado then 1 else 0);
          driverTotals' =
            (case map_of (driverTotals_acc acc) driverKey of
               Some driver \<Rightarrow>
                 AList.map_entry driverKey
                   (\<lambda>d. d\<lparr>total := total d + 1,
                           entregados := entregados d + deliveredIncrement\<rparr>)
                   (driverTotals_acc acc)
             | None \<Rightarrow>
                 AList.update driverKey
                   \<lparr>nombre = conductorNombre_rp item, total = 1,
                    entregados = deliveredIncrement\<rparr>
                   (driverTotals_acc acc));
          opened =
            (case map_of (dateBuckets_acc acc) (dateKey item) of
               Some b \<Rightarrow> dateBuckets_acc acc
             | None \<Rightarrow>
                 AList.update (dateKey item)
                   \<lparr>label_db =
                      (if truthy (fechaEntrega_rp item)
                       then formatShortDateLabel (the (fechaEntrega_rp item))
                       else ''Sin fecha''),
                    sortKey =
                      (case fechaEntrega_rp item of Some d \<Rightarrow> d | None \<Rightarrow> ''9999-12-31''),
                    counts = (\<lambda>e. 0)\<rparr>
                   (dateBuckets_acc acc));
          dateBuckets' =
            AList.map_entry (dateKey item)
              (\<lambda>b. b\<lparr>counts := incr (counts b) (estado_rp item)\<rparr>) opened
      in \<lparr>statusTotals_acc = statusTotals', dateBuckets_acc = dateBuckets',
          driverTotals_acc = driverTotals'\<rparr>)"

definition aggregate :: "(string \<Rightarrow> string) \<Rightarrow> Programacion list \<Rightarrow> ChartsAcc" where
  "aggregate formatShortDateLabel items = foldl (forEach_body formatShortDateLabel) charts_init items"

definition statusTotals :: "(string \<Rightarrow> string) \<Rightarrow> Programacion list \<Rightarrow> EstadoReporte \<Rightarrow> nat" where
  "statusTotals fmt items = statusTotals_acc (aggregate fmt items)"

definition dateBuckets :: "(string \<Rightarrow> string) \<Rightarrow> Programacion list \<Rightarrow> (string \<times> DateBucket) list" where
  "dateBuckets fmt items = dateBuckets_acc (aggregate fmt items)"

definition driverTotals :: "(string \<Rightarrow> string) \<Rightarrow> Programacion list \<Rightarrow> (string \<times> DriverTotal) list" where
  "driverTotals fmt items = driverTotals_acc (aggregate fmt items)"

definition totalRegistros :: "(string \<Rightarrow> string) \<Rightarrow> Programacion list \<Rightarrow> nat" where
  "totalRegistros fmt items =
     statusTotals fmt items entregado + statusTotals fmt items en_proceso +
     statusTotals fmt items no_entregado"

text \<open>\<open>total ? Math.round((part / total) * 100) : 0\<close>\<close>

definition porcentaje :: "nat \<Rightarrow> nat \<Rightarrow> int" where
  "porcentaje part tot =
     (if tot \<noteq> 0 then Math_round (js_mul (js_div (of_nat part) (of_nat tot)) 100) else 0)"


definition porcentajeAtrasos :: "(string \<Rightarrow> string) \<Rightarrow> Programacion list \<Rightarrow> int" where
  "porcentajeAtrasos fmt items =
     porcentaje (statusTotals fmt items no_entregado) (totalRegistros fmt items)"

text \<open>
  \<open>dateBuckets[k].sortKey\<close> for a key of the object. \<open>Array.prototype.sort\<close> is stable,
  and the comparator orders two keys by their sort keys, so the result is the stable
  sort by sort key: \<^const>\<open>sort_key\<close>.
\<close>

definition sortKey_of :: "(string \<times> DateBucket) list \<Rightarrow> string \<Rightarrow> string" where
  "sortKey_of buckets k = (case map_of buckets k of Some b \<Rightarrow> sortKey b | None \<Rightarrow> [])"

definition sortedDateKeys :: "(string \<Rightarrow> string) \<Rightarrow> Programacion list \<Rightarrow> string list" where
  "sortedDateKeys fmt items =
     sort_key (sortKey_of (dateBuckets fmt items)) (map fst (dateBuckets fmt items))"

definition stackedCategories :: "(string \<Rightarrow> string) \<Rightarrow> Programacion list \<Rightarrow> string list" where
  "stackedCategories fmt items =
     (if sortedDateKeys fmt items \<noteq> []
      then map (\<lambda>k. case map_of (dateBuckets fmt items) k of
                       Some b \<Rightarrow> label_db b | None \<Rightarrow> [])
             (sortedDateKeys fmt items)
      else [''Sin datos''])"

definition stackedSeries ::
  "(string \<Rightarrow> string) \<Rightarrow> Programacion list \<Rightarrow> (string \<times> nat list) list" where
  "stackedSeries fmt items =
     map (\<lambda>estadoKey.
            (ESTADO_INFO_label estadoKey,
             if sortedDateKeys fmt items \<noteq> []
             then map (\<lambda>k. case map_of (dateBuckets fmt items) k of
                              Some b \<Rightarrow> counts b estadoKey | None \<Rightarrow> 0)
                    (sortedDateKeys fmt items)
             else [0]))
       ESTADO_ORDER"

definition donutSeries :: "(string \<Rightarrow> string) \<Rightarrow> Programacion list \<Rightarrow> nat list" where
  "donutSeries fmt items = map (statusTotals fmt items) ESTADO_ORDER"

text \<open>
  The drivers, most deliveries first, then most programaciones: the comparator
  \<open>b.entregados - a.entregados\<close>, then \<open>b.total - a.total\<close>, in a stable sort.
\<close>

definition driverEntries :: "(string \<Rightarrow> string) \<Rightarrow> Programacion list \<Rightarrow> DriverTotal list" where
  "driverEntries fmt items =
     sort_key (\<lambda>d. (- int (entregados d), - int (total d))) (map snd (driverTotals fmt items))"

definition hasDeliveredData :: "(string \<Rightarrow> string) \<Rightarrow> Programacion list \<Rightarrow> bool" where
  "hasDeliveredData fmt items = (\<exists>d \<in> set (driverEntries fmt items). entregados d > 0)"

definition driverCategories :: "(string \<Rightarrow> string) \<Rightarrow> Programacion list \<Rightarrow> string list" where
  "driverCategories fmt items =
     (if driverEntries fmt items \<noteq> [] then map nombre (driverEntries fmt items)
      else [''Sin registros''])"

definition productividadData :: "(string \<Rightarrow> string) \<Rightarrow> Programacion list \<Rightarrow> nat list" where
  "productividadData fmt items =
     (if driverEntries fmt items \<noteq> []
      then map (\<lambda>d. if hasDeliveredData fmt items then entregados d else total d)
             (driverEntries fmt items)
      else [0])"






section \<open>Strings, thrown values, responses and effects of the handlers\<close>

text \<open>
  \<open>String.prototype.trim\<close> on code units below 256: the white space and line
  terminators there are the code units 9 to 13, 32 and 160.
\<close>

definition is_space :: "char \<Rightarrow> bool" where
  "is_space c = (of_char c \<in> {9, 10, 11, 12, 13, 32, 160 :: nat})"

definition trim :: "string \<Rightarrow> string" where
  "trim s = rev (dropWhile is_space (rev (dropWhile is_space s)))"

text \<open>\<open>sanitize = (value) => (value ?? '').trim()\<close>\<close>

definition sanitize :: "string option \<Rightarrow> string" where
  "sanitize v = trim (case v of Some s \<Rightarrow> s | None \<Rightarrow> [])"

text \<open>\<open>a || b\<close> on strings.\<close>

definition or_else :: "string \<Rightarrow> string \<Rightarrow> string" where
  "or_else a b = (if a \<noteq> [] then a else b)"

text \<open>\<open>String(n)\<close> for an integer \<open>n\<close>: its decimal digits.\<close>

fun digits :: "nat \<Rightarrow> string" where
  "digits n =
     (if n < 10 then [''0123456789'' ! n]
      else digits (n div 10) @ [''0123456789'' ! (n mod 10)])"

declare digits.simps [simp del]

definition String_int :: "int \<Rightarrow> string" where
  "String_int i = (if i < 0 then CHR ''-'' # digits (nat (- i)) else digits (nat i))"

text \<open>A value of type \<open>number | string\<close>, and \<open>String\<close> of it.\<close>

datatype num_or_str = Num int | Str string

fun String_of :: "num_or_str \<Rightarrow> string" where
  "String_of (Num n) = String_int n"
| "String_of (Str s) = s"

text \<open>
  \<open>encodeURIComponent\<close> on code units below 256: letters, digits and \<open>- _ . ! ~ * ' ( )\<close>
  stay, every other code unit is written as the percent-escaped bytes of its UTF-8 form.
\<close>

definition unreserved :: "char \<Rightarrow> bool" where
  "unreserved c =
     (c \<in> set ''ABCDEFGHIJKLMNOPQRSTUVWXYZabcdefghijklmnopqrstuvwxyz0123456789-_.!~*()''
      \<or> c = CHR 0x27)"

definition hex_digit :: "nat \<Rightarrow> char" where
  "hex_digit n = ''0123456789ABCDEF'' ! n"

definition percent :: "nat \<Rightarrow> string" where
  "percent b = [CHR ''%'', hex_digit (b div 16), hex_digit (b mod 16)]"

definition encode_unit :: "char \<Rightarrow> string" where
  "encode_unit c =
     (let n = (of_char c :: nat)
      in if unreserved c then [c]
         else if n < 128 then percent n
         else percent (192 + n div 64) @ percent (128 + n mod 64))"

definition encodeURIComponent :: "string \<Rightarrow> string" where
  "encodeURIComponent s = concat (map encode_unit s)"

text \<open>
  What a \<open>catch\<close> clause receives: an \<open>Error\<close> with its message, or a value that is
  not an \<open>Error\<close> instance.
\<close>

datatype thrown = JsError string | NonError

text \<open>\<open>error instanceof Error ? error.message : fallback\<close>\<close>

fun message_or :: "thrown \<Rightarrow> string \<Rightarrow> string" where
  "message_or (JsError m) fallback = m"
| "message_or NonError fallback = fallback"

text \<open>
  A \<open>Response\<close>: \<open>ok\<close>, \<open>status\<close>, and what reading the body gives, as text and as
  JSON of the type the code casts it to; either read may reject. A \<open>fetch\<close> rejects or
  resolves with a response.
\<close>

record 'j response =
  resp_ok :: bool
  resp_status :: int
  resp_text :: "thrown + string"
  resp_json :: "thrown + 'j"

datatype 'j fetched = Rejected thrown | Resolved "'j response"

text \<open>
  The effects of a handler, in the order it issues them: a request through one of the two
  fetch hooks (the verb, the URL, the JSON body if any), a \<open>window.confirm\<close>, a
  \<open>window.alert\<close>, and \<open>navigate(-1)\<close>.
\<close>

datatype fetcher = authorizedFetch | traccarFetch

datatype http_verb = GET | POST | PUT | DELETE

datatype 'b effect =
    Fetch fetcher http_verb string "'b option"
  | Confirm
  | Alert
  | NavigateBack

fun is_fetch :: "'b effect \<Rightarrow> bool" where
  "is_fetch (Fetch f v u b) = True"
| "is_fetch _ = False"

text \<open>The envelope of the backend's answers, \<open>ApiResponse<T>\<close>.\<close>

record 'd ApiResponse =
  code_ar :: "int option"
  data_ar :: 'd
  message_ar :: "string option"

text \<open>
  The \<open>data\<close> of a list answer: an array, a page object, or anything else. Of the page
  object the pages read \<open>content\<close>, \<open>totalElements\<close>, \<open>totalPages\<close>, \<open>first\<close> and
  \<open>last\<close>; a field that is absent or of another type is \<^term>\<open>None\<close>.
\<close>

record 'a page_data =
  content :: "'a list option"
  totalElements_pg :: "int option"
  totalPages_pg :: "int option"
  first_pg :: "bool option"
  last_pg :: "bool option"

datatype 'a list_data = DataArray "'a list" | DataPage "'a page_data" | DataOther

text \<open>
  How the fetch of a list effect ends: aborted by the effect's cleanup, failed, or answered;
  and whether the component is still mounted when the continuation runs.
\<close>

datatype 'j outcome = Aborted | Failed thrown | Answered "'j response"

record 'j fetch_env =
  fe_token :: "string option"
  fe_outcome :: "'j outcome"
  fe_mounted :: bool

text \<open>
  \<open>Math.ceil(a / b)\<close> for integers with \<open>b > 0\<close> (below \<open>2 ^ 53\<close> the rounding of the
  quotient to binary64 cannot reach the next integer, so the ceiling is exact).
\<close>

definition ceil_div :: "int \<Rightarrow> int \<Rightarrow> int" where
  "ceil_div a b = - ((- a) div b)"

section \<open>Scheduling a delivery run (views/programar-salida/ProgramarSalida.tsx)\<close>

subsection \<open>Data\<close>

record ClienteApi =
  idCliente :: "int option"
  nombre_cl :: "string option"
  representante :: "string option"
  telefono :: "string option"
  celular :: "string option"
  fax :: "string option"
  email :: "string option"

record UbicacionClienteApi =
  idUbicacionCliente :: "int option"
  idCliente_ub :: "ClienteApi option"
  ubicacion :: "string option"
  nombreDireccion :: "string option"
  status_ub :: "string option"

record NotaSalidaApi =
  idNotaSalida :: int
  cliente_ns :: "ClienteApi option"
  ubicaciones_ns :: "UbicacionClienteApi option list option"
  nroSalida_ns :: "num_or_str option"
  codigoPedido :: "num_or_str option"
  fechaSalidaAprobada :: "string option"
  fechaSalida :: "string option"

record PedidoUbicacion =
  id_ub :: string
  nombre_ub :: string
  raw :: "UbicacionClienteApi option"

record Pedido =
  id_pd :: string
  nroSalida :: string
  nroPedido :: string
  cliente :: string
  clienteInfo :: "ClienteApi option"
  ubicaciones :: "PedidoUbicacion list"
  ubicacionSeleccionada :: "string option"
  seleccionado :: "bool option"
  rawNota :: NotaSalidaApi

record VehiculoOption =
  id_vo :: string
  descripcion :: string

record ConductorOption =
  id_co :: string
  nombre_co :: string

text \<open>The sixteen state variables of the component.\<close>

record ProgramarSalida_state =
  fechaEntrega :: string
  vehiculoId :: string
  conductorId :: string
  vehiculos :: "VehiculoOption list"
  conductores :: "ConductorOption list"
  pedidos :: "Pedido list"
  pedidosPage :: int
  pedidosSize :: int
  pedidosTotalPages :: int
  pedidosTotalElements :: int
  isLoadingPedidos :: bool
  pedidosError :: "string option"
  esUltimaPaginaPedidos :: bool
  isSubmitting :: bool
  submitError :: "string option"
  submitSuccess :: "string option"

subsection \<open>The list of orders and its pages\<close>

text \<open>\<open>isUbicacionValida\<close>, and the mapping of a nota to a row of the table.\<close>

definition isUbicacionValida :: "UbicacionClienteApi option \<Rightarrow> bool" where
  "isUbicacionValida u = (case u of None \<Rightarrow> False | Some v \<Rightarrow> idUbicacionCliente v \<noteq> None)"

definition ubicacionLimpia :: "UbicacionClienteApi option \<Rightarrow> PedidoUbicacion" where
  "ubicacionLimpia u =
     \<lparr>id_ub = String_int (the (idUbicacionCliente (the u))),
      nombre_ub = or_else (sanitize (nombreDireccion (the u))) ''Sin direccion'',
      raw = u\<rparr>"

definition pedidoMapeado :: "NotaSalidaApi \<Rightarrow> Pedido" where
  "pedidoMapeado nota =
     \<lparr>id_pd = String_int (idNotaSalida nota),
      nroSalida = (case nroSalida_ns nota of Some v \<Rightarrow> String_of v | None \<Rightarrow> []),
      nroPedido = (case codigoPedido nota of Some v \<Rightarrow> String_of v | None \<Rightarrow> []),
      cliente =
        or_else (sanitize (case cliente_ns nota of Some c \<Rightarrow> nombre_cl c | None \<Rightarrow> None))
          ''Sin cliente'',
      clienteInfo = cliente_ns nota,
      ubicaciones =
        map ubicacionLimpia
          (filter isUbicacionValida
             (case ubicaciones_ns nota of Some us \<Rightarrow> us | None \<Rightarrow> [])),
      ubicacionSeleccionada = None,
      seleccionado = Some False,
      rawNota = nota\<rparr>"

text \<open>
  The totals the effect reads off the answer: the list, \<open>totalPaginas\<close>,
  \<open>totalRegistros\<close> and \<open>ultimaPagina\<close>.
\<close>

definition notas_totals ::
  "int \<Rightarrow> NotaSalidaApi list_data \<Rightarrow> NotaSalidaApi list \<times> int \<times> int \<times> bool" where
  "notas_totals safePage d =
     (case d of
        DataArray xs \<Rightarrow> (xs, (if xs \<noteq> [] then 1 else 0), int (length xs), True)
      | DataPage pageData \<Rightarrow>
          (let listaNotas = (case content pageData of Some xs \<Rightarrow> xs | None \<Rightarrow> []);
               totalPaginas =
                 (case totalPages_pg pageData of
                    Some n \<Rightarrow> n
                  | None \<Rightarrow> if listaNotas \<noteq> [] then 1 else 0);
               totalRegistros' =
                 (case totalElements_pg pageData of
                    Some n \<Rightarrow> n
                  | None \<Rightarrow> int (length listaNotas));
               ultimaPagina =
                 (case last_pg pageData of
                    Some b \<Rightarrow> b
                  | None \<Rightarrow> if totalPaginas \<noteq> 0 then safePage \<ge> totalPaginas - 1 else True)
           in (listaNotas, totalPaginas, totalRegistros', ultimaPagina))
      | DataOther \<Rightarrow> ([], 0, 0, True))"

text \<open>
  The effect that loads a page of orders (\<open>obtenerNotasSalida\<close> with the code around
  it), from the state in which it starts to the state after its last update.
\<close>

definition obtenerNotasSalida ::
  "(NotaSalidaApi list_data ApiResponse option) fetch_env \<Rightarrow> ProgramarSalida_state \<Rightarrow>
     ProgramarSalida_state \<times> unit effect list" where
  "obtenerNotasSalida env s =
     (if \<not> truthy (fe_token env)
      then (s\<lparr>pedidos := [], pedidosTotalElements := 0, pedidosTotalPages := 0,
              esUltimaPaginaPedidos := True\<rparr>, [])
      else
        let s1 = s\<lparr>isLoadingPedidos := True, pedidosError := None\<rparr>;
            safePage = max 0 (pedidosPage s);
            request = Fetch authorizedFetch GET
              (''/api/v1/notas-salidas/obtener?page='' @ String_int safePage @
               ''&size='' @ String_int (pedidosSize s)) None;
            finally = (\<lambda>st. if fe_mounted env then st\<lparr>isLoadingPedidos := False\<rparr> else st);
            failed = (\<lambda>e. finally
              (if fe_mounted env
               then s1\<lparr>pedidos := [],
                       pedidosError := Some (message_or e ''No se pudieron cargar los pedidos.''),
                       pedidosTotalElements := 0, pedidosTotalPages := 0,
                       esUltimaPaginaPedidos := True\<rparr>
               else s1))
        in
        (case fe_outcome env of
           Aborted \<Rightarrow> finally s1
         | Failed e \<Rightarrow> failed e
         | Answered r \<Rightarrow>
             (let json = (case resp_json r of Inl e \<Rightarrow> None | Inr j \<Rightarrow> j) in
              if \<not> resp_ok r
              then failed (JsError
                (case (case json of Some j \<Rightarrow> message_ar j | None \<Rightarrow> None) of
                   Some m \<Rightarrow> m
                 | None \<Rightarrow> ''Respuesta inesperada ('' @ String_int (resp_status r) @ '')''))
              else if (case json of
                         Some j \<Rightarrow> (case code_ar j of Some c \<Rightarrow> c \<noteq> 0 \<and> c \<noteq> 200 | None \<Rightarrow> False)
                       | None \<Rightarrow> False)
              then failed (JsError
                (or_else (case message_ar (the json) of Some m \<Rightarrow> m | None \<Rightarrow> [])
                   ''Error al obtener notas de salida.''))
              else
                (case notas_totals safePage
                        (case json of Some j \<Rightarrow> data_ar j | None \<Rightarrow> DataOther) of
                   (listaNotas, totalPaginas, totalRegistros', ultimaPagina) \<Rightarrow>
                     if \<not> fe_mounted env then finally s1
                     else if totalPaginas > 0 \<and> safePage \<ge> totalPaginas
                     then finally (s1\<lparr>pedidosPage := max (totalPaginas - 1) 0\<rparr>)
                     else finally
                       (s1\<lparr>pedidos := map pedidoMapeado listaNotas,
                           pedidosTotalElements := totalRegistros',
                           pedidosTotalPages := totalPaginas,
                           esUltimaPaginaPedidos := ultimaPagina\<rparr>))),
         [request]))"

text \<open>What the render derives from the state, and the three page handlers.\<close>

definition totalPaginasVisibles :: "ProgramarSalida_state \<Rightarrow> int" where
  "totalPaginasVisibles s =
     max (if pedidosTotalPages s > 0 then pedidosTotalPages s
          else let c = ceil_div (pedidosTotalElements s) (pedidosSize s)
               in if c \<noteq> 0 then c else 1)
         1"

definition isFirstPedidosPage :: "ProgramarSalida_state \<Rightarrow> bool" where
  "isFirstPedidosPage s = (pedidosPage s \<le> 0)"

definition isLastPedidosPage :: "ProgramarSalida_state \<Rightarrow> bool" where
  "isLastPedidosPage s =
     (if pedidosTotalPages s > 0 then pedidosPage s \<ge> pedidosTotalPages s - 1
      else esUltimaPaginaPedidos s \<or> int (length (pedidos s)) < pedidosSize s)"

definition handleNextPedidosPage :: "ProgramarSalida_state \<Rightarrow> ProgramarSalida_state" where
  "handleNextPedidosPage s =
     (if isLastPedidosPage s \<or> isLoadingPedidos s then s
      else s\<lparr>pedidosPage := pedidosPage s + 1\<rparr>)"

definition handlePreviousPedidosPage :: "ProgramarSalida_state \<Rightarrow> ProgramarSalida_state" where
  "handlePreviousPedidosPage s =
     (if isFirstPedidosPage s \<or> isLoadingPedidos s then s
      else s\<lparr>pedidosPage := max (pedidosPage s - 1) 0\<rparr>)"

text \<open>\<open>Number(value)\<close> is a parameter: \<^term>\<open>None\<close> stands for \<open>NaN\<close>.\<close>

definition handlePedidosPageSizeChange ::
  "(string \<Rightarrow> int option) \<Rightarrow> string \<Rightarrow> ProgramarSalida_state \<Rightarrow> ProgramarSalida_state" where
  "handlePedidosPageSizeChange Number v s =
     (case Number v of
        None \<Rightarrow> s
      | Some newSize \<Rightarrow>
          if newSize \<le> 0 then s else s\<lparr>pedidosSize := newSize, pedidosPage := 0\<rparr>)"

subsection \<open>Saving the programacion (\<open>guardarProgramacion\<close>)\<close>

text \<open>
  A parsed JSON value, for the answer of the first request, which the handler searches
  for the new identifier. The fields of an object are an association list (its keys
  distinct); a lookup that finds nothing is \<open>undefined\<close>.
\<close>

datatype json =
    JNull
  | JBool bool
  | JNum int
  | JStr string
  | JArr "json list"
  | JObj "(string \<times> json) list"

fun js_truthy :: "json \<Rightarrow> bool" where
  "js_truthy JNull = False"
| "js_truthy (JBool b) = b"
| "js_truthy (JNum n) = (n \<noteq> 0)"
| "js_truthy (JStr s) = (s \<noteq> [])"
| "js_truthy (JArr xs) = True"
| "js_truthy (JObj fs) = True"

text \<open>\<open>a ?? b\<close>\<close>

fun coalesce :: "json option \<Rightarrow> json option \<Rightarrow> json option" where
  "coalesce None b = b"
| "coalesce (Some JNull) b = b"
| "coalesce (Some v) b = Some v"

text \<open>\<open>Number(value)\<close> is a parameter of what follows: \<^term>\<open>None\<close> stands for \<open>NaN\<close>.\<close>

fun parseMaybeNumber :: "(string \<Rightarrow> int option) \<Rightarrow> json option \<Rightarrow> int option" where
  "parseMaybeNumber Number (Some (JNum n)) = Some n"
| "parseMaybeNumber Number (Some (JStr s)) = Number s"
| "parseMaybeNumber Number _ = None"

lemma map_of_size [termination_simp]:
  "map_of fs k = Some v \<Longrightarrow> size v < Suc (size_list (\<lambda>x. Suc (size (snd x))) fs)"
  by (induction fs) (auto split: if_splits)

fun extractProgramacionId :: "(string \<Rightarrow> int option) \<Rightarrow> json \<Rightarrow> int option" where
  "extractProgramacionId Number (JObj record) =
     (case parseMaybeNumber Number
             (coalesce (map_of record ''idProgramacion'') (map_of record ''id_programacion'')) of
        Some directId \<Rightarrow> Some directId
      | None \<Rightarrow>
          (case (case map_of record ''data'' of
                   Some d \<Rightarrow> if js_truthy d then extractProgramacionId Number d else None
                 | None \<Rightarrow> None) of
             Some nested \<Rightarrow> Some nested
           | None \<Rightarrow>
               (case map_of record ''programacion'' of
                  Some d \<Rightarrow> if js_truthy d then extractProgramacionId Number d else None
                | None \<Rightarrow> None)))"
| "extractProgramacionId Number _ = None"

text \<open>\<open>coerceStringIdToNumber\<close>\<close>

definition coerceStringIdToNumber :: "(string \<Rightarrow> int option) \<Rightarrow> string \<Rightarrow> int option" where
  "coerceStringIdToNumber Number v = Number v"

text \<open>The bodies of the two requests (\<open>idProgramacion: null\<close> is left out of the first).\<close>

record programacionPayload =
  idVehiculo :: int
  idConductor :: int
  idAdministrador :: int
  fechaCreacion :: string
  estadoEntrega_pp :: int
  fechaEntrega_pp :: string
  status_pp :: int

record salidaPayload =
  idNotaSalida_sp :: int
  cliente_sp :: "ClienteApi option"
  ubicaciones_sp :: UbicacionClienteApi
  nroSalida_sp :: "num_or_str option"
  codigoPedido_sp :: "num_or_str option"
  fechaSalidaAprobada_sp :: "string option"
  fechaSalida_sp :: "string option"

datatype ps_body = ProgramacionBody programacionPayload | SalidasBody "salidaPayload list"

text \<open>
  What the handler reads besides the state: the memoised \<open>today\<close>, \<open>auth.userId\<close>, the
  token, whether \<open>window\<close> exists and what the user answers to \<open>window.confirm\<close>, the
  time stamp \<open>formatAsLocalDateTime(new Date())\<close>, \<open>Number\<close>, and the outcomes of its
  two requests.
\<close>

record guardar_env =
  gp_today :: string
  gp_userId :: "int option"
  gp_token :: "string option"
  gp_window :: bool
  gp_confirmado :: bool
  gp_ahora :: string
  gp_Number :: "string \<Rightarrow> int option"
  gp_programacion :: "json fetched"
  gp_salidas :: "unit fetched"

definition pedidosSeleccionados :: "ProgramarSalida_state \<Rightarrow> Pedido list" where
  "pedidosSeleccionados s = filter (\<lambda>p. seleccionado p = Some True) (pedidos s)"

text \<open>One element of \<open>salidasPayload\<close>; the callback throws when the chosen location is
  not among the order's locations or has no raw object.\<close>

definition salidaDe :: "Pedido \<Rightarrow> thrown + salidaPayload" where
  "salidaDe pedido =
     (let noEncontrada = JsError
            (''No se encontro la ubicacion seleccionada para el pedido '' @ nroPedido pedido @
             ''.'')
      in case find (\<lambda>u. Some (id_ub u) = ubicacionSeleccionada pedido) (ubicaciones pedido) of
           None \<Rightarrow> Inl noEncontrada
         | Some u \<Rightarrow>
             (case raw u of
                None \<Rightarrow> Inl noEncontrada
              | Some r \<Rightarrow>
                  Inr \<lparr>idNotaSalida_sp = idNotaSalida (rawNota pedido),
                       cliente_sp = cliente_ns (rawNota pedido),
                       ubicaciones_sp = r,
                       nroSalida_sp = nroSalida_ns (rawNota pedido),
                       codigoPedido_sp = codigoPedido (rawNota pedido),
                       fechaSalidaAprobada_sp = fechaSalidaAprobada (rawNota pedido),
                       fechaSalida_sp = fechaSalida (rawNota pedido)\<rparr>))"

fun salidasPayload :: "Pedido list \<Rightarrow> thrown + salidaPayload list" where
  "salidasPayload [] = Inr []"
| "salidasPayload (p # ps) =
     (case salidaDe p of
        Inl e \<Rightarrow> Inl e
      | Inr x \<Rightarrow> (case salidasPayload ps of Inl e \<Rightarrow> Inl e | Inr xs \<Rightarrow> Inr (x # xs)))"

text \<open>
  The body of the \<open>try\<close>: what it throws, if anything, and the requests it sent.
\<close>

definition enviarProgramacion ::
  "guardar_env \<Rightarrow> ProgramarSalida_state \<Rightarrow> Pedido list \<Rightarrow> int \<Rightarrow> int \<Rightarrow> int \<Rightarrow>
     (thrown + unit) \<times> ps_body effect list" where
  "enviarProgramacion env s seleccionados idV idC idA =
     (let programacionRequest = Fetch authorizedFetch POST
            ''/api/v1/programacion-distribucion/add''
            (Some (ProgramacionBody
               \<lparr>idVehiculo = idV, idConductor = idC, idAdministrador = idA,
                fechaCreacion = gp_ahora env, estadoEntrega_pp = 1,
                fechaEntrega_pp = fechaEntrega s, status_pp = 1\<rparr>))
      in case gp_programacion env of
           Rejected e \<Rightarrow> (Inl e, [programacionRequest])
         | Resolved programacionResponse \<Rightarrow>
             if \<not> resp_ok programacionResponse
             then (case resp_text programacionResponse of
                     Inl e \<Rightarrow> (Inl e, [programacionRequest])
                   | Inr errorText \<Rightarrow>
                       (Inl (JsError
                          (if errorText \<noteq> []
                           then ''Error al registrar la programacion: '' @ errorText
                           else ''Error al registrar la programacion ('' @
                                String_int (resp_status programacionResponse) @ '').'')),
                        [programacionRequest]))
             else
               (case (case resp_json programacionResponse of
                        Inl e \<Rightarrow> None
                      | Inr programacionJson \<Rightarrow>
                          extractProgramacionId (gp_Number env) programacionJson) of
                  None \<Rightarrow>
                    (Inl (JsError ''La API no devolvio el identificador de la programacion.''),
                     [programacionRequest])
                | Some programacionId \<Rightarrow>
                    (case salidasPayload seleccionados of
                       Inl e \<Rightarrow> (Inl e, [programacionRequest])
                     | Inr payload \<Rightarrow>
                         (let salidasRequest = Fetch authorizedFetch POST
                                (''/api/v1/salidas-programadas/add/'' @
                                 String_int programacionId)
                                (Some (SalidasBody payload))
                          in case gp_salidas env of
                               Rejected e \<Rightarrow> (Inl e, [programacionRequest, salidasRequest])
                             | Resolved salidasResponse \<Rightarrow>
                                 if \<not> resp_ok salidasResponse
                                 then (case resp_text salidasResponse of
                                         Inl e \<Rightarrow> (Inl e, [programacionRequest, salidasRequest])
                                       | Inr errorText \<Rightarrow>
                                           (Inl (JsError
                                              (if errorText \<noteq> []
                                               then ''Error al registrar las salidas: '' @
                                                    errorText
                                               else ''Error al registrar las salidas ('' @
                                                    String_int (resp_status salidasResponse) @
                                                    '').'')),
                                            [programacionRequest, salidasRequest]))
                                 else (Inr (), [programacionRequest, salidasRequest])))))"

text \<open>
  The checks of the handler, in their order: the message of the first that fails, or the
  three identifiers when all pass.
\<close>

definition validar :: "guardar_env \<Rightarrow> ProgramarSalida_state \<Rightarrow> string + int \<times> int \<times> int" where
  "validar env s =
     (let seleccionados = pedidosSeleccionados s
      in
      if fechaEntrega s = [] then Inl ''Selecciona una fecha de entrega.''
      else if fechaEntrega s < gp_today env
      then Inl ''La fecha de entrega no puede ser anterior a hoy.''
      else if vehiculoId s = [] then Inl ''Selecciona un vehiculo.''
      else if conductorId s = [] then Inl ''Selecciona un conductor.''
      else if seleccionados = []
      then Inl ''Selecciona al menos un pedido para programar.''
      else if filter (\<lambda>p. \<not> truthy (ubicacionSeleccionada p)) seleccionados \<noteq> []
      then Inl ''Selecciona una ubicacion para cada pedido marcado.''
      else
        (case coerceStringIdToNumber (gp_Number env) (vehiculoId s) of
           None \<Rightarrow> Inl ''El identificador del vehiculo no es valido.''
         | Some idV \<Rightarrow>
        (case coerceStringIdToNumber (gp_Number env) (conductorId s) of
           None \<Rightarrow> Inl ''El identificador del conductor no es valido.''
         | Some idC \<Rightarrow>
        (case gp_userId env of
           None \<Rightarrow> Inl ''No se encontro el identificador del administrador.''
         | Some idA \<Rightarrow>
             if \<not> truthy (gp_token env)
             then Inl (''No se encontro un token de autenticacion. '' @
                       ''Inicia sesion e intentalo nuevamente.'')
             else Inr (idV, idC, idA)))))"

text \<open>
  The handler. After the guard on \<open>isSubmitting\<close> it clears both messages; a failed
  check sets \<open>submitError\<close> and returns; a declined confirmation returns at once; the
  \<open>try\<close> runs between \<open>setIsSubmitting(true)\<close> and the \<open>finally\<close>.
\<close>

definition guardarProgramacion ::
  "guardar_env \<Rightarrow> ProgramarSalida_state \<Rightarrow> ProgramarSalida_state \<times> ps_body effect list" where
  "guardarProgramacion env s =
     (if isSubmitting s then (s, [])
      else
        let s0 = s\<lparr>submitError := None, submitSuccess := None\<rparr> in
        (case validar env s of
           Inl m \<Rightarrow> (s0\<lparr>submitError := Some m\<rparr>, [])
         | Inr (idV, idC, idA) \<Rightarrow>
             if gp_window env \<and> \<not> gp_confirmado env then (s0, [Confirm])
             else
               (case enviarProgramacion env s (pedidosSeleccionados s) idV idC idA of
                  (result, requests) \<Rightarrow>
                    ((case result of
                        Inr u \<Rightarrow>
                          s0\<lparr>submitSuccess := Some ''Programacion registrada correctamente.'',
                             pedidos :=
                               map (\<lambda>pedido. pedido\<lparr>seleccionado := Some False,
                                                     ubicacionSeleccionada := None\<rparr>)
                                 (pedidos s),
                             isSubmitting := False\<rparr>
                      | Inl e \<Rightarrow>
                          s0\<lparr>submitError :=
                               Some (message_or e ''No se pudo guardar la programacion.''),
                             isSubmitting := False\<rparr>),
                     (if gp_window env then [Confirm] else []) @ requests))))"

section \<open>The GPS devices page (views/dispositivos/Dispositivos.tsx)\<close>

subsection \<open>Data\<close>

record DispositivoApi =
  idDispositivo :: num_or_str
  codigo_da :: "string option"
  modelo_da :: "string option"
  activo_da :: "int option"
  status_da :: "int option"

record Dispositivo =
  id_d :: string
  codigo :: string
  modelo :: string
  activo :: "int option"
  status_d :: "int option"

definition mapDispositivo :: "DispositivoApi \<Rightarrow> Dispositivo" where
  "mapDispositivo dispositivo =
     \<lparr>id_d = String_of (idDispositivo dispositivo),
      codigo = sanitize (codigo_da dispositivo),
      modelo = sanitize (modelo_da dispositivo),
      activo = activo_da dispositivo,
      status_d = status_da dispositivo\<rparr>"

datatype feedback_type = success | failure

record FeedbackMessage =
  type_fb :: feedback_type
  message_fb :: string

text \<open>The twenty state variables of the component.\<close>

record Dispositivos_state =
  query :: string
  searchTerm :: string
  reloadKey :: int
  dispositivos :: "Dispositivo list"
  selectedDispositivo :: "Dispositivo option"
  loading :: bool
  error_dg :: "string option"
  nuevoCodigo :: string
  nuevoModelo :: string
  isSubmitting_dg :: bool
  submitError_dg :: "string option"
  submitSuccess_dg :: "string option"
  page_dg :: int
  size_dg :: int
  totalElements :: int
  totalPages :: int
  isFirstPage :: bool
  isLastPage :: bool
  deletingId :: "string option"
  deleteFeedback :: "FeedbackMessage option"

subsection \<open>The list of devices and its pages\<close>

text \<open>
  The totals the effect reads off the answer: the list, \<open>totalRegistros\<close>,
  \<open>totalPaginas\<close>, \<open>firstFlag\<close> and \<open>lastFlag\<close>.
\<close>

definition dispositivos_totals ::
  "int \<Rightarrow> int \<Rightarrow> DispositivoApi list_data \<Rightarrow>
     DispositivoApi list \<times> int \<times> int \<times> bool \<times> bool" where
  "dispositivos_totals safePage sz d =
     (case d of
        DataArray xs \<Rightarrow> (xs, int (length xs), (if xs \<noteq> [] then 1 else 0), True, True)
      | DataPage pageData \<Rightarrow>
          (let itemsSource = (case content pageData of Some xs \<Rightarrow> xs | None \<Rightarrow> []);
               totalRegistros' =
                 (case totalElements_pg pageData of
                    Some n \<Rightarrow> n
                  | None \<Rightarrow> int (length itemsSource));
               totalPaginas =
                 (case totalPages_pg pageData of
                    Some n \<Rightarrow> n
                  | None \<Rightarrow>
                      if totalRegistros' > 0 \<and> sz > 0 then ceil_div totalRegistros' sz
                      else if itemsSource \<noteq> [] then 1 else 0);
               firstFlag = (case first_pg pageData of Some b \<Rightarrow> b | None \<Rightarrow> safePage \<le> 0);
               lastFlag =
                 (case last_pg pageData of
                    Some b \<Rightarrow> b
                  | None \<Rightarrow>
                      if totalPaginas \<noteq> 0 then safePage \<ge> totalPaginas - 1
                      else int (length itemsSource) < sz)
           in (itemsSource, totalRegistros', totalPaginas, firstFlag, lastFlag))
      | DataOther \<Rightarrow> ([], 0, 0, safePage \<le> 0, True))"

text \<open>
  The effect that loads a page of devices (\<open>obtenerDispositivos\<close> with the code around
  it). The cleanup of the effect sets \<open>isMounted\<close> to false and aborts the controller
  together, so \<open>controller.signal.aborted\<close> is the negation of \<open>isMounted\<close>.
\<close>

definition obtenerDispositivos ::
  "(DispositivoApi list_data ApiResponse option) fetch_env \<Rightarrow> Dispositivos_state \<Rightarrow>
     Dispositivos_state \<times> unit effect list" where
  "obtenerDispositivos env s =
     (if \<not> truthy (fe_token env)
      then (s\<lparr>dispositivos := [], selectedDispositivo := None, totalElements := 0,
              totalPages := 0, isFirstPage := True, isLastPage := True\<rparr>, [])
      else
        let term' = (if trim (searchTerm s) = [] then ''all'' else trim (searchTerm s));
            safePage = max (page_dg s) 0;
            s1 = s\<lparr>loading := True, error_dg := None\<rparr>;
            request = Fetch authorizedFetch GET
              (''/api/v1/dispositivosGps/'' @ encodeURIComponent term' @ ''?page='' @
               String_int safePage @ ''&size='' @ String_int (size_dg s)) None;
            finally = (\<lambda>st. if fe_mounted env then st\<lparr>loading := False\<rparr> else st);
            failed = finally
              (if fe_mounted env
               then s1\<lparr>error_dg :=
                         Some ''No se pudieron cargar los dispositivos. Intenta nuevamente.'',
                       dispositivos := [], selectedDispositivo := None, totalElements := 0,
                       totalPages := 0, isFirstPage := True, isLastPage := True\<rparr>
               else s1)
        in
        (case fe_outcome env of
           Aborted \<Rightarrow> finally s1
         | Failed e \<Rightarrow> failed
         | Answered r \<Rightarrow>
             (let json = (case resp_json r of Inl e \<Rightarrow> None | Inr j \<Rightarrow> j) in
              if \<not> fe_mounted env then s1
              else if \<not> resp_ok r then failed
              else if (case json of
                         Some j \<Rightarrow> (case code_ar j of Some c \<Rightarrow> c \<noteq> 0 \<and> c \<noteq> 200 | None \<Rightarrow> False)
                       | None \<Rightarrow> False)
              then failed
              else
                (case dispositivos_totals safePage (size_dg s)
                        (case json of Some j \<Rightarrow> data_ar j | None \<Rightarrow> DataOther) of
                   (itemsSource, totalRegistros', totalPaginas, firstFlag, lastFlag) \<Rightarrow>
                     if totalPaginas > 0 \<and> safePage \<ge> totalPaginas
                     then finally (s1\<lparr>page_dg := max (totalPaginas - 1) 0\<rparr>)
                     else
                       (let items = map mapDispositivo itemsSource in
                        finally
                          (s1\<lparr>dispositivos := items,
                              totalElements := totalRegistros',
                              totalPages := totalPaginas,
                              isFirstPage := firstFlag,
                              isLastPage := lastFlag,
                              selectedDispositivo :=
                                (case selectedDispositivo s of
                                   Some prev \<Rightarrow>
                                     if \<exists>item \<in> set items. id_d item = id_d prev
                                     then Some prev else None
                                 | None \<Rightarrow> None)\<rparr>)))),
         [request]))"

definition handleNextPage :: "Dispositivos_state \<Rightarrow> Dispositivos_state" where
  "handleNextPage s =
     (if isLastPage s \<or> loading s then s else s\<lparr>page_dg := page_dg s + 1\<rparr>)"

definition handlePreviousPage :: "Dispositivos_state \<Rightarrow> Dispositivos_state" where
  "handlePreviousPage s =
     (if isFirstPage s \<or> loading s then s else s\<lparr>page_dg := max (page_dg s - 1) 0\<rparr>)"

definition handlePageSizeChange ::
  "(string \<Rightarrow> int option) \<Rightarrow> string \<Rightarrow> Dispositivos_state \<Rightarrow> Dispositivos_state" where
  "handlePageSizeChange Number v s =
     (case Number v of
        None \<Rightarrow> s
      | Some parsed \<Rightarrow> if parsed \<le> 0 then s else s\<lparr>size_dg := parsed, page_dg := 0\<rparr>)"

subsection \<open>Registering a device (\<open>handleGuardarNuevo\<close>)\<close>

record traccarDevicePayload =
  name_tp :: string
  uniqueId :: string
  category :: "string option"

record dispositivoPayload =
  codigo_dp :: string
  modelo_dp :: string
  activo_dp :: int
  status_dp :: int

datatype dg_body = TraccarDeviceBody traccarDevicePayload | DispositivoBody dispositivoPayload

text \<open>
  What the handler reads besides the state: the token, and the outcomes of the request to
  Traccar, whose JSON answer is read for its \<open>id\<close> (\<^term>\<open>None\<close> when it is
  \<open>undefined\<close> or \<open>null\<close>), and of the request to the backend. The answer to the
  compensating \<open>DELETE\<close> is not read.
\<close>

record nuevo_env =
  gn_token :: "string option"
  gn_traccar :: "num_or_str option fetched"
  gn_backend :: "unit fetched"

text \<open>
  The body of the \<open>try\<close>: what it throws, if anything, the value of \<open>traccarDeviceId\<close>
  when it ends, and the requests it sent.
\<close>

definition registrarDispositivo ::
  "nuevo_env \<Rightarrow> string \<Rightarrow> string \<Rightarrow> (thrown + unit) \<times> num_or_str option \<times> dg_body effect list"
  where
  "registrarDispositivo env codigo' modelo' =
     (let traccarRequest = Fetch traccarFetch POST ''/api/devices''
            (Some (TraccarDeviceBody
               \<lparr>name_tp = codigo', uniqueId = codigo',
                category = (if modelo' \<noteq> [] then Some modelo' else None)\<rparr>))
      in case gn_traccar env of
           Rejected e \<Rightarrow> (Inl e, None, [traccarRequest])
         | Resolved traccarResponse \<Rightarrow>
             if \<not> resp_ok traccarResponse
             then (case resp_text traccarResponse of
                     Inl e \<Rightarrow> (Inl e, None, [traccarRequest])
                   | Inr t \<Rightarrow>
                       (Inl (JsError
                          (or_else t
                             (''Error al registrar el dispositivo en Traccar ('' @
                              String_int (resp_status traccarResponse) @ '').''))),
                        None, [traccarRequest]))
             else
               (case resp_json traccarResponse of
                  Inl e \<Rightarrow> (Inl e, None, [traccarRequest])
                | Inr traccarDeviceId \<Rightarrow>
                    if traccarDeviceId = None \<or> traccarDeviceId = Some (Str [])
                    then (Inl (JsError
                            (''Traccar no devolvio un identificador para el '' @
                             ''dispositivo registrado.'')),
                          traccarDeviceId, [traccarRequest])
                    else
                      (let traccarIdAsString = String_of (the traccarDeviceId);
                           modeloAlmacenado =
                             codigo' @ (if modelo' \<noteq> [] then '', '' @ modelo' else []);
                           request = Fetch authorizedFetch POST ''/api/v1/dispositivosGps/add''
                             (Some (DispositivoBody
                                \<lparr>codigo_dp = traccarIdAsString, modelo_dp = modeloAlmacenado,
                                 activo_dp = 1, status_dp = 1\<rparr>))
                       in case gn_backend env of
                            Rejected e \<Rightarrow> (Inl e, traccarDeviceId, [traccarRequest, request])
                          | Resolved response \<Rightarrow>
                              if \<not> resp_ok response
                              then (case resp_text response of
                                      Inl e \<Rightarrow>
                                        (Inl e, traccarDeviceId, [traccarRequest, request])
                                    | Inr t \<Rightarrow>
                                        (Inl (JsError
                                           (or_else t
                                              (''Error al registrar el dispositivo ('' @
                                               String_int (resp_status response) @ '').''))),
                                         traccarDeviceId, [traccarRequest, request]))
                              else (Inr (), traccarDeviceId, [traccarRequest, request]))))"

text \<open>
  The handler: the two checks, the \<open>try\<close>, and on a throw the \<open>catch\<close>, which sends
  the \<open>DELETE\<close> when \<open>traccarDeviceId\<close> is neither \<open>undefined\<close> nor \<open>null\<close> and then
  sets \<open>submitError\<close>.
\<close>

definition handleGuardarNuevo ::
  "nuevo_env \<Rightarrow> Dispositivos_state \<Rightarrow> Dispositivos_state \<times> dg_body effect list" where
  "handleGuardarNuevo env s =
     (if \<not> truthy (gn_token env)
      then (s\<lparr>submitError_dg := Some ''No se encontro un token de autenticacion.''\<rparr>, [])
      else
        let s0 = s\<lparr>submitError_dg := None, submitSuccess_dg := None\<rparr>;
            codigo' = sanitize (Some (nuevoCodigo s));
            modelo' = sanitize (Some (nuevoModelo s))
        in
        if codigo' = [] \<or> modelo' = []
        then (s0\<lparr>submitError_dg := Some ''Completa el codigo y el modelo del dispositivo.''\<rparr>,
              [])
        else
          (case registrarDispositivo env codigo' modelo' of
             (Inr u, traccarDeviceId, requests) \<Rightarrow>
               (s0\<lparr>submitSuccess_dg := Some ''Dispositivo registrado correctamente.'',
                   nuevoCodigo := [], nuevoModelo := [], query := [],
                   searchTerm := ''all'', page_dg := 0, reloadKey := reloadKey s + 1,
                   isSubmitting_dg := False\<rparr>,
                requests)
           | (Inl e, traccarDeviceId, requests) \<Rightarrow>
               (s0\<lparr>submitError_dg :=
                      Some (message_or e ''No se pudo registrar el dispositivo.''),
                   isSubmitting_dg := False\<rparr>,
                requests @
                (case traccarDeviceId of
                   Some i \<Rightarrow>
                     [Fetch traccarFetch DELETE
                        (''/api/devices/'' @ encodeURIComponent (String_of i)) None]
                 | None \<Rightarrow> []))))"

section \<open>The observation form (views/conductores/EntregaObservacion.tsx)\<close>

datatype EstadoEntregaSelect = Entregado | No_Entregado

fun mapEstadoToValue :: "EstadoEntregaSelect \<Rightarrow> int" where
  "mapEstadoToValue Entregado = 2"
| "mapEstadoToValue No_Entregado = 1"

record Observacion_state =
  observacion :: string
  estado_ob :: EstadoEntregaSelect
  isSubmitting_ob :: bool

text \<open>
  What the form reads besides its state: \<open>auth.userId\<close>, the id of the delivery line
  (\<open>productoId ?? state.notaId ?? ''\<close>), the answer to \<open>window.confirm\<close>, \<open>Number\<close>
  (\<^term>\<open>None\<close> for \<open>NaN\<close>), and the outcome of its request.
\<close>

record observacion_env =
  ob_conductorId :: "int option"
  ob_salidaDetalleId :: string
  ob_confirm :: bool
  ob_Number :: "string \<Rightarrow> int option"
  ob_response :: "unit fetched"

record observacionPayload =
  idConductor_ob :: "int option"
  idSalidasProgramadasDetalle :: "int option"
  observacion_py :: string
  estadoEntrega_ob :: int
  status_ob :: int

text \<open>\<open>Boolean(conductorId && salidaDetalleId && observacion.trim())\<close>\<close>

definition canSubmit :: "observacion_env \<Rightarrow> Observacion_state \<Rightarrow> bool" where
  "canSubmit env s =
     ((case ob_conductorId env of Some n \<Rightarrow> n \<noteq> 0 | None \<Rightarrow> False) \<and>
      ob_salidaDetalleId env \<noteq> [] \<and> trim (observacion s) \<noteq> [])"

definition onSubmit ::
  "observacion_env \<Rightarrow> Observacion_state \<Rightarrow> Observacion_state \<times> observacionPayload effect list"
  where
  "onSubmit env s =
     (if \<not> canSubmit env s \<or> isSubmitting_ob s then (s, [])
      else if \<not> ob_confirm env then (s, [Confirm])
      else
        let request = Fetch authorizedFetch POST ''/api/v1/observacion-entregas/add''
              (Some \<lparr>idConductor_ob = ob_conductorId env,
                     idSalidasProgramadasDetalle = ob_Number env (ob_salidaDetalleId env),
                     observacion_py = trim (observacion s),
                     estadoEntrega_ob = mapEstadoToValue (estado_ob s),
                     status_ob = 1\<rparr>);
            succeeded =
              (case ob_response env of
                 Rejected e \<Rightarrow> False
               | Resolved response \<Rightarrow> resp_ok response)
        in (s\<lparr>isSubmitting_ob := False\<rparr>,
            [Confirm, request, if succeeded then NavigateBack else Alert]))"

section \<open>The monitoring panel (views/monitoreo/PanelMonitoreo.tsx)\<close>

subsection \<open>Data\<close>

record ProgramacionItem =
  id_pi :: string
  fechaEntrega_pi :: "string option"
  estadoEntrega_pi :: "int option"
  vehiculoDescripcion :: string
  conductorNombre_pi :: string
  dispositivoId :: "string option"

record SearchParams =
  nro_sp :: string
  desde_sp :: string
  hasta_sp :: string

record ActionStatus =
  type_as :: feedback_type
  message_as :: string

text \<open>The thirteen state variables of the component.\<close>

record PanelMonitoreo_state =
  nro :: string
  desde :: string
  hasta :: string
  searchParams :: SearchParams
  items :: "ProgramacionItem list"
  loading_pm :: bool
  error_pm :: "string option"
  editingProgramacion :: "ProgramacionItem option"
  editFecha :: string
  editSubmitting :: bool
  deleteInProgress :: "string option"
  mutationError :: "string option"
  actionStatus :: "ActionStatus option"

text \<open>
  What the handlers read besides the state: the memoised \<open>todayIsoDate\<close>, whether
  \<open>window\<close> exists and the answer to \<open>window.confirm\<close>, \<open>Number\<close>, and the outcome of
  the one request a handler sends.
\<close>

record panel_env =
  pm_todayIsoDate :: string
  pm_window :: bool
  pm_confirm :: bool
  pm_Number :: "string \<Rightarrow> int option"
  pm_response :: "unit fetched"

subsection \<open>Helpers\<close>

text \<open>The code units of two accented letters of the messages.\<close>

definition a_acute :: char where
  "a_acute = CHR 0xE1"

definition o_acute :: char where
  "o_acute = CHR 0xF3"

text \<open>
  \<open>normalizeIsoDateString\<close>: nothing for a missing or blank value, the first ten
  characters when the trimmed value starts like \<open>dddd-dd-dd\<close> (the regular expression
  \<open>/^(\d{4})-(\d{2})-(\d{2})/\<close>), the trimmed value otherwise.
\<close>

definition is_digit :: "char \<Rightarrow> bool" where
  "is_digit c = (CHR ''0'' \<le> c \<and> c \<le> CHR ''9'')"

definition iso_prefix :: "string \<Rightarrow> bool" where
  "iso_prefix t =
     (10 \<le> length t \<and>
      (\<forall>i \<in> {0, 1, 2, 3, 5, 6, 8, 9}. is_digit (t ! i)) \<and>
      t ! 4 = CHR ''-'' \<and> t ! 7 = CHR ''-'')"

definition normalizeIsoDateString :: "string option \<Rightarrow> string option" where
  "normalizeIsoDateString v =
     (case v of
        None \<Rightarrow> None
      | Some s \<Rightarrow>
          let trimmed = trim s
          in if trimmed = [] then None
             else if iso_prefix trimmed then Some (take 10 trimmed)
             else Some trimmed)"

text \<open>\<open>isEstadoEntregado\<close>, on a value of type \<open>number | string | null | undefined\<close>.\<close>

definition isEstadoEntregado :: "(string \<Rightarrow> int option) \<Rightarrow> num_or_str option \<Rightarrow> bool" where
  "isEstadoEntregado Number e =
     (case e of
        None \<Rightarrow> False
      | Some (Num n) \<Rightarrow> n = 2
      | Some (Str t) \<Rightarrow> Number t = Some 2)"

subsection \<open>Handlers\<close>

definition closeEditForm :: "PanelMonitoreo_state \<Rightarrow> PanelMonitoreo_state" where
  "closeEditForm s = s\<lparr>editingProgramacion := None, editFecha := [], mutationError := None\<rparr>"

definition openEditForm ::
  "panel_env \<Rightarrow> ProgramacionItem \<Rightarrow> PanelMonitoreo_state \<Rightarrow> PanelMonitoreo_state" where
  "openEditForm env programacion s =
     (if isEstadoEntregado (pm_Number env) (map_option Num (estadoEntrega_pi programacion))
      then s
      else if map_option id_pi (editingProgramacion s) = Some (id_pi programacion)
      then closeEditForm s
      else
        let normalizedProgramacionDate = normalizeIsoDateString (fechaEntrega_pi programacion);
            initialDate =
              (case normalizedProgramacionDate of
                 Some d \<Rightarrow> if d \<ge> pm_todayIsoDate env then d else pm_todayIsoDate env
               | None \<Rightarrow> pm_todayIsoDate env)
        in s\<lparr>actionStatus := None, mutationError := None,
              editingProgramacion := Some programacion, editFecha := initialDate\<rparr>)"

text \<open>
  \<open>handleDelete\<close>. In the messages an accented letter is its code unit
  (\<^term>\<open>o_acute\<close>, \<^term>\<open>a_acute\<close>).
\<close>

definition handleDelete ::
  "panel_env \<Rightarrow> ProgramacionItem \<Rightarrow> PanelMonitoreo_state \<Rightarrow>
     PanelMonitoreo_state \<times> unit effect list" where
  "handleDelete env programacion s =
     (let asked = (if pm_window env then [Confirm] else []);
          confirmed = (if pm_window env then pm_confirm env else True)
      in if \<not> confirmed then (s, asked)
         else
           let request = Fetch authorizedFetch DELETE
                 (''/api/v1/programacion-distribucion/delete/'' @ id_pi programacion) None;
               s1 = s\<lparr>actionStatus := None, deleteInProgress := Some (id_pi programacion)\<rparr>;
               succeeded =
                 (case pm_response env of
                    Rejected e \<Rightarrow> False
                  | Resolved response \<Rightarrow> resp_ok response)
           in ((if succeeded
                then
                  (let s2 = s1\<lparr>items := filter (\<lambda>item. id_pi item \<noteq> id_pi programacion)
                                          (items s1)\<rparr>;
                       s3 = (if map_option id_pi (editingProgramacion s) =
                                Some (id_pi programacion)
                             then closeEditForm s2 else s2)
                   in s3\<lparr>actionStatus :=
                           Some \<lparr>type_as = success,
                                 message_as = ''Programaci'' @ [o_acute] @ ''n eliminada correctamente.''\<rparr>\<rparr>)
                else
                  s1\<lparr>actionStatus :=
                       Some \<lparr>type_as = failure,
                             message_as = ''No se pudo eliminar la programaci'' @ [o_acute] @
                                          ''n seleccionada. Intenta nuevamente.''\<rparr>\<rparr>)
               \<lparr>deleteInProgress := None\<rparr>,
               asked @ [request]))"

text \<open>\<open>handleEditSubmit\<close>\<close>

definition handleEditSubmit ::
  "panel_env \<Rightarrow> PanelMonitoreo_state \<Rightarrow> PanelMonitoreo_state \<times> unit effect list" where
  "handleEditSubmit env s =
     (case editingProgramacion s of
        None \<Rightarrow> (s, [])
      | Some editing \<Rightarrow>
          (case normalizeIsoDateString (Some (editFecha s)) of
             None \<Rightarrow>
               (s\<lparr>mutationError :=
                    Some (''Selecciona una fecha v'' @ [a_acute] @
                          ''lida con el formato yyyy-MM-dd.'')\<rparr>, [])
           | Some normalizedDate \<Rightarrow>
               if normalizedDate < pm_todayIsoDate env
               then (s\<lparr>mutationError :=
                         Some ''Selecciona una fecha igual o posterior a la fecha actual.''\<rparr>,
                     [])
               else
                 let s1 = s\<lparr>actionStatus := None, mutationError := None,
                            editSubmitting := True\<rparr>;
                     request = Fetch authorizedFetch PUT
                       (''/api/v1/programacion-distribucion/updateFecha/'' @ id_pi editing @
                        ''/'' @ normalizedDate) None;
                     failed = (\<lambda>e.
                       s1\<lparr>mutationError :=
                            Some (message_or e ''No se pudo actualizar la fecha.''),
                          actionStatus :=
                            Some \<lparr>type_as = failure,
                                  message_as = ''No se pudo actualizar la fecha. '' @
                                               ''Intenta nuevamente.''\<rparr>\<rparr>)
                 in ((case pm_response env of
                        Rejected e \<Rightarrow> failed e
                      | Resolved response \<Rightarrow>
                          if \<not> resp_ok response
                          then (case resp_text response of
                                  Inl e \<Rightarrow> failed e
                                | Inr t \<Rightarrow>
                                    failed (JsError
                                      (or_else t
                                         (''No se pudo actualizar la fecha (status '' @
                                          String_int (resp_status response) @ '').''))))
                          else
                            closeEditForm
                              (s1\<lparr>items :=
                                    map (\<lambda>item. if id_pi item = id_pi editing
                                                 then item\<lparr>fechaEntrega_pi := Some normalizedDate\<rparr>
                                                 else item)
                                      (items s1),
                                  actionStatus :=
                                    Some \<lparr>type_as = success,
                                          message_as = ''Fecha actualizada correctamente.''\<rparr>\<rparr>))
                     \<lparr>editSubmitting := False\<rparr>,
                     [request])))"

section \<open>Notions and sample data for the properties\<close>

text \<open>
  Notions for the properties of \<open>guardarProgramacion\<close>: the form is incomplete when the
  date is missing or earlier than today, no vehicle or no driver is chosen, no order is
  selected, or a selected order has no location chosen; and the message that answers the
  first of these that holds.
\<close>

definition incompleta :: "guardar_env \<Rightarrow> ProgramarSalida_state \<Rightarrow> bool" where
  "incompleta env s \<longleftrightarrow>
     fechaEntrega s = [] \<or> fechaEntrega s < gp_today env \<or> vehiculoId s = [] \<or>
     conductorId s = [] \<or> pedidosSeleccionados s = [] \<or>
     (\<exists>p \<in> set (pedidosSeleccionados s). \<not> truthy (ubicacionSeleccionada p))"

definition mensaje_de_rechazo :: "guardar_env \<Rightarrow> ProgramarSalida_state \<Rightarrow> string" where
  "mensaje_de_rechazo env s =
     (if fechaEntrega s = [] then ''Selecciona una fecha de entrega.''
      else if fechaEntrega s < gp_today env
      then ''La fecha de entrega no puede ser anterior a hoy.''
      else if vehiculoId s = [] then ''Selecciona un vehiculo.''
      else if conductorId s = [] then ''Selecciona un conductor.''
      else if pedidosSeleccionados s = [] then ''Selecciona al menos un pedido para programar.''
      else ''Selecciona una ubicacion para cada pedido marcado.'')"

text \<open>
  Sample data: a day; the component's initial state; a nota with one location; the state
  of a form that is ready to send, and that state after a save succeeded; a \<open>Number\<close>
  that reads the two identifiers of the sample; an answer with \<open>ok\<close> set; and the
  environment of a run in which the user confirms and both requests succeed.
\<close>

definition hoy :: string where
  "hoy = ''2026-01-15''"

definition ProgramarSalida_inicial :: "string \<Rightarrow> ProgramarSalida_state" where
  "ProgramarSalida_inicial today =
     \<lparr>fechaEntrega = today, vehiculoId = [], conductorId = [], vehiculos = [],
      conductores = [], pedidos = [], pedidosPage = 0, pedidosSize = 8,
      pedidosTotalPages = 0, pedidosTotalElements = 0, isLoadingPedidos = False,
      pedidosError = None, esUltimaPaginaPedidos = True, isSubmitting = False,
      submitError = None, submitSuccess = None\<rparr>"

definition nota7 :: NotaSalidaApi where
  "nota7 =
     \<lparr>idNotaSalida = 7, cliente_ns = None,
      ubicaciones_ns =
        Some [Some \<lparr>idUbicacionCliente = Some 3, idCliente_ub = None, ubicacion = None,
                     nombreDireccion = Some ''Almacen'', status_ub = None\<rparr>],
      nroSalida_ns = Some (Num 12), codigoPedido = Some (Str ''P-9''),
      fechaSalidaAprobada = None, fechaSalida = None\<rparr>"

definition listo :: ProgramarSalida_state where
  "listo =
     (ProgramarSalida_inicial hoy)
       \<lparr>vehiculoId := ''5'', conductorId := ''8'',
        pedidos := [(pedidoMapeado nota7)
                      \<lparr>seleccionado := Some True, ubicacionSeleccionada := Some ''3''\<rparr>]\<rparr>"

definition Number_muestra :: "string \<Rightarrow> int option" where
  "Number_muestra v = (if v = ''5'' then Some 5 else if v = ''8'' then Some 8 else None)"

definition respuesta_ok :: "'j \<Rightarrow> 'j fetched" where
  "respuesta_ok j =
     Resolved \<lparr>resp_ok = True, resp_status = 200, resp_text = Inr [], resp_json = Inr j\<rparr>"

definition guardar_env_ok :: guardar_env where
  "guardar_env_ok =
     \<lparr>gp_today = hoy, gp_userId = Some 1, gp_token = Some ''t'', gp_window = True,
      gp_confirmado = True, gp_ahora = ''2026-01-15T10:00:00'', gp_Number = Number_muestra,
      gp_programacion =
        respuesta_ok (JObj [(''code'', JNum 200),
                            (''data'', JObj [(''idProgramacion'', JNum 41)])]),
      gp_salidas = respuesta_ok ()\<rparr>"

definition registrado :: ProgramarSalida_state where
  "registrado = listo\<lparr>submitSuccess := Some ''Programacion registrada correctamente.''\<rparr>"

text \<open>
  Sample data: the initial state of the devices page and of the panel; two programaciones,
  one in process and one delivered; an observation ready to send; and environments in
  which the user confirms and the request succeeds.
\<close>

definition Dispositivos_inicial :: Dispositivos_state where
  "Dispositivos_inicial =
     \<lparr>query = [], searchTerm = ''all'', reloadKey = 0, dispositivos = [],
      selectedDispositivo = None, loading = False, error_dg = None, nuevoCodigo = [],
      nuevoModelo = [], isSubmitting_dg = False, submitError_dg = None,
      submitSuccess_dg = None, page_dg = 0, size_dg = 10, totalElements = 0, totalPages = 0,
      isFirstPage = True, isLastPage = True, deletingId = None, deleteFeedback = None\<rparr>"

definition PanelMonitoreo_inicial :: PanelMonitoreo_state where
  "PanelMonitoreo_inicial =
     \<lparr>nro = [], desde = [], hasta = [],
      searchParams = \<lparr>nro_sp = [], desde_sp = [], hasta_sp = []\<rparr>,
      items = [], loading_pm = False, error_pm = None, editingProgramacion = None,
      editFecha = [], editSubmitting = False, deleteInProgress = None,
      mutationError = None, actionStatus = None\<rparr>"

definition prog7 :: ProgramacionItem where
  "prog7 =
     \<lparr>id_pi = ''7'', fechaEntrega_pi = Some ''2026-02-01'', estadoEntrega_pi = Some 0,
      vehiculoDescripcion = ''1234-ABC - Toyota'', conductorNombre_pi = ''Ana'',
      dispositivoId = None\<rparr>"

definition prog9 :: ProgramacionItem where
  "prog9 =
     \<lparr>id_pi = ''9'', fechaEntrega_pi = Some ''2026-01-10'', estadoEntrega_pi = Some 2,
      vehiculoDescripcion = ''5678-DEF - Nissan'', conductorNombre_pi = ''Luis'',
      dispositivoId = Some ''3''\<rparr>"

definition panel_env_ok :: panel_env where
  "panel_env_ok =
     \<lparr>pm_todayIsoDate = hoy, pm_window = True, pm_confirm = True,
      pm_Number = Number_muestra, pm_response = respuesta_ok ()\<rparr>"

definition editando :: PanelMonitoreo_state where
  "editando =
     PanelMonitoreo_inicial
       \<lparr>items := [prog7, prog9], editingProgramacion := Some prog7,
        editFecha := ''2026-03-01''\<rparr>"

definition observacion_lista :: Observacion_state where
  "observacion_lista =
     \<lparr>observacion = ''Cliente ausente'', estado_ob = No_Entregado, isSubmitting_ob = False\<rparr>"

definition observacion_env_ok :: observacion_env where
  "observacion_env_ok =
     \<lparr>ob_conductorId = Some 8, ob_salidaDetalleId = ''5'', ob_confirm = True,
      ob_Number = Number_muestra, ob_response = respuesta_ok ()\<rparr>"

text \<open>
  Notions for the properties of \<open>handleGuardarNuevo\<close>: the request that registers the
  device in Traccar, the request that adds it to the backend, and the message for an
  answer of Traccar without an identifier.
\<close>

definition solicitud_traccar :: "string \<Rightarrow> string \<Rightarrow> dg_body effect" where
  "solicitud_traccar c m =
     Fetch traccarFetch POST ''/api/devices''
       (Some (TraccarDeviceBody \<lparr>name_tp = c, uniqueId = c, category = Some m\<rparr>))"

definition solicitud_backend :: "num_or_str \<Rightarrow> string \<Rightarrow> string \<Rightarrow> dg_body effect" where
  "solicitud_backend i c m =
     Fetch authorizedFetch POST ''/api/v1/dispositivosGps/add''
       (Some (DispositivoBody
          \<lparr>codigo_dp = String_of i, modelo_dp = c @ '', '' @ m, activo_dp = 1,
           status_dp = 1\<rparr>))"

definition sin_identificador :: string where
  "sin_identificador = ''Traccar no devolvio un identificador para el dispositivo registrado.''"

text \<open>
  Sample data: the form of a new device filled in, and an environment in which both
  requests succeed, Traccar answering with the identifier 15.
\<close>

definition formulario :: Dispositivos_state where
  "formulario = Dispositivos_inicial\<lparr>nuevoCodigo := ''GPS-01'', nuevoModelo := ''TK103''\<rparr>"

definition nuevo_env_ok :: nuevo_env where
  "nuevo_env_ok =
     \<lparr>gn_token = Some ''t'', gn_traccar = respuesta_ok (Some (Num 15)),
      gn_backend = respuesta_ok ()\<rparr>"

text \<open>The runs of the \<open>try\<close>, by what Traccar and the backend answer.\<close>

definition traccar_id :: "nuevo_env \<Rightarrow> num_or_str option" where
  "traccar_id env =
     (case gn_traccar env of
        Rejected e \<Rightarrow> None
      | Resolved r \<Rightarrow>
          if resp_ok r then (case resp_json r of Inl e \<Rightarrow> None | Inr i \<Rightarrow> i) else None)"

definition backend_ok :: "nuevo_env \<Rightarrow> bool" where
  "backend_ok env = (case gn_backend env of Rejected e \<Rightarrow> False | Resolved r \<Rightarrow> resp_ok r)"

definition borrar_traccar :: "num_or_str \<Rightarrow> dg_body effect" where
  "borrar_traccar i =
     Fetch traccarFetch DELETE (''/api/devices/'' @ encodeURIComponent (String_of i)) None"

text \<open>
  An answer of the orders endpoint that carries no \<open>totalPages\<close>: the first eight of
  twenty notas, with \<open>last\<close> false.
\<close>

definition pagina_sin_totalPages :: "NotaSalidaApi page_data" where
  "pagina_sin_totalPages =
     \<lparr>content = Some (map (\<lambda>i. nota7\<lparr>idNotaSalida := i\<rparr>) [1, 2, 3, 4, 5, 6, 7, 8]),
      totalElements_pg = Some 20, totalPages_pg = None, first_pg = Some True,
      last_pg = Some False\<rparr>"

definition notas_env :: "(NotaSalidaApi list_data ApiResponse option) fetch_env" where
  "notas_env =
     \<lparr>fe_token = Some ''t'',
      fe_outcome = Answered
        \<lparr>resp_ok = True, resp_status = 200, resp_text = Inr [],
         resp_json = Inr (Some \<lparr>code_ar = Some 200, data_ar = DataPage pagina_sin_totalPages,
                                message_ar = None\<rparr>)\<rparr>,
      fe_mounted = True\<rparr>"

chapter \<open>Properties\<close>

section \<open>The role guard\<close>




section \<open>The report filter\<close>

text \<open>
  C5. For every list of programaciones and every pair of filter values, the filtered list
  holds exactly the records, in their original order, whose estado passes the estado
  filter (\<open>'todos'\<close> or equal) and whose conductorId passes the conductor filter
  (\<open>'todos'\<close> or equal).
\<close>

theorem filteredProgramaciones_exact:
  "filteredProgramaciones programaciones estado conductor =
     filter
       (\<lambda>r. (estado = todos \<or> estado = solo (estado_rp r)) \<and>
            (conductor = ''todos'' \<or> conductorId_rp r = Some conductor))
       programaciones"
  unfolding filteredProgramaciones_def
  by (rule filter_cong) (auto simp: keeps_def)

theorem filteredProgramaciones_exact_witness:
  "filteredProgramaciones
     [\<lparr>id_rp = ''1'', estado_rp = entregado, conductorId_rp = Some ''7'',
        conductorNombre_rp = ''Ana'', fechaEntrega_rp = Some ''2025-01-02''\<rparr>,
      \<lparr>id_rp = ''2'', estado_rp = en_proceso, conductorId_rp = Some ''7'',
        conductorNombre_rp = ''Ana'', fechaEntrega_rp = None\<rparr>,
      \<lparr>id_rp = ''3'', estado_rp = entregado, conductorId_rp = None,
        conductorNombre_rp = ''Sin asignar'', fechaEntrega_rp = Some ''2025-01-03''\<rparr>,
      \<lparr>id_rp = ''4'', estado_rp = entregado, conductorId_rp = Some ''7'',
        conductorNombre_rp = ''Ana'', fechaEntrega_rp = Some ''2025-01-04''\<rparr>]
     (solo entregado) ''7'' =
   [\<lparr>id_rp = ''1'', estado_rp = entregado, conductorId_rp = Some ''7'',
      conductorNombre_rp = ''Ana'', fechaEntrega_rp = Some ''2025-01-02''\<rparr>,
    \<lparr>id_rp = ''4'', estado_rp = entregado, conductorId_rp = Some ''7'',
      conductorNombre_rp = ''Ana'', fechaEntrega_rp = Some ''2025-01-04''\<rparr>]"
  using filteredProgramaciones_exact
    [of "[\<lparr>id_rp = ''1'', estado_rp = entregado, conductorId_rp = Some ''7'',
            conductorNombre_rp = ''Ana'', fechaEntrega_rp = Some ''2025-01-02''\<rparr>,
          \<lparr>id_rp = ''2'', estado_rp = en_proceso, conductorId_rp = Some ''7'',
            conductorNombre_rp = ''Ana'', fechaEntrega_rp = None\<rparr>,
          \<lparr>id_rp = ''3'', estado_rp = entregado, conductorId_rp = None,
            conductorNombre_rp = ''Sin asignar'', fechaEntrega_rp = Some ''2025-01-03''\<rparr>,
          \<lparr>id_rp = ''4'', estado_rp = entregado, conductorId_rp = Some ''7'',
            conductorNombre_rp = ''Ana'', fechaEntrega_rp = Some ''2025-01-04''\<rparr>]"
        "solo entregado" "''7''"]
  by simp

section \<open>The route table\<close>

text \<open>
  The claim C1 as stated, that every route object of the table carries a lazily loaded
  component inside the role guard with a non-empty role list, fails: the welcome page,
  the authentication pages and others are not guarded.
\<close>

theorem Router_all_guarded_counterexample:
  "\<not> (\<forall>r \<in> set (all_routes Router). is_guarded_lazy (element r))"
proof
  assume all: "\<forall>r \<in> set (all_routes Router). is_guarded_lazy (element r)"
  have "leaf ''/auth/login'' None (Page (Lazy ''../views/auth/login/Login''))
          \<in> set (all_routes Router)"
    by (simp add: all_routes_def Router_def leaf_def)
  with all have "is_guarded_lazy
      (element (leaf ''/auth/login'' None (Page (Lazy ''../views/auth/login/Login''))))"
    by blast
  then show False
    by (simp add: leaf_def)
qed

text \<open>
  C1, amended. A route of the table is guarded exactly when its path lies under
  \<open>/menu/\<close> and is not \<open>/menu/perfil\<close>; every guarded route wraps a lazily loaded
  component in the guard with a non-empty role list that contains administrador; and
  every route element is a lazily loaded component, bare or guarded, except \<open>/inicio\<close>
  (Home, imported statically) and the catch-all \<open>*\<close> (a bare Navigate).
\<close>

theorem Router_guarded_routes:
  "\<forall>r \<in> set (all_routes Router).
     (is_guarded (element r) \<longleftrightarrow>
        prefix ''/menu/'' (path r) \<and> path r \<noteq> ''/menu/perfil'') \<and>
     (is_guarded (element r) \<longrightarrow>
        is_guarded_lazy (element r) \<and> Administrador \<in> set (guard_roles (element r))) \<and>
     (is_lazy_page (element r) \<or> is_guarded_lazy (element r) \<or>
        path r = ''/inicio'' \<or> path r = ''*'')"
  by (simp add: all_routes_def Router_def leaf_def withRoleGuard_def)

theorem Router_guarded_routes_witness:
  "leaf ''/menu/reportes'' (Some True)
      (withRoleGuard (Page (Lazy ''../views/reportes/Reportes'')) [Administrador])
     \<in> set (all_routes Router) \<and>
   is_guarded_lazy
     (element (leaf ''/menu/reportes'' (Some True)
        (withRoleGuard (Page (Lazy ''../views/reportes/Reportes'')) [Administrador])))"
proof -
  have m: "leaf ''/menu/reportes'' (Some True)
      (withRoleGuard (Page (Lazy ''../views/reportes/Reportes'')) [Administrador])
     \<in> set (all_routes Router)"
    by (simp add: all_routes_def Router_def leaf_def withRoleGuard_def)
  from Router_guarded_routes [rule_format, OF m] m show ?thesis
    by (simp add: leaf_def withRoleGuard_def)
qed

section \<open>The report charts\<close>











lemma sorted_keys:
  "sorted (map (sortKey_of (dateBuckets fmt xs)) (sortedDateKeys fmt xs))"
  by (simp add: sortedDateKeys_def)




















section \<open>Saving a programacion\<close>

lemma filter_nonempty_iff: "filter P xs \<noteq> [] \<longleftrightarrow> (\<exists>x \<in> set xs. P x)"
  by (simp add: filter_empty_conv)

lemma guardar_submitting:
  "isSubmitting s \<Longrightarrow> guardarProgramacion env s = (s, [])"
  by (simp add: guardarProgramacion_def)

lemma validar_incompleta:
  "incompleta env s \<Longrightarrow> validar env s = Inl (mensaje_de_rechazo env s)"
  unfolding validar_def incompleta_def mensaje_de_rechazo_def Let_def filter_nonempty_iff
  by auto

lemma validar_Inr: "validar env s = Inr ids \<Longrightarrow> \<not> incompleta env s"
  using validar_incompleta [of env s] by auto

lemma guardar_incompleta:
  assumes "\<not> isSubmitting s" and "incompleta env s"
  shows "guardarProgramacion env s =
           (s\<lparr>submitError := Some (mensaje_de_rechazo env s), submitSuccess := None\<rparr>, [])"
  using assms by (simp add: guardarProgramacion_def validar_incompleta)

lemma enviar_effects:
  "\<exists>body rest.
     snd (enviarProgramacion env s sel idV idC idA) =
       Fetch authorizedFetch POST ''/api/v1/programacion-distribucion/add''
         (Some (ProgramacionBody body)) # rest \<and>
     fechaEntrega_pp body = fechaEntrega s \<and> idVehiculo body = idV \<and>
     idConductor body = idC \<and> idAdministrador body = idA \<and>
     (rest = [] \<or>
      (\<exists>pid payload.
         rest = [Fetch authorizedFetch POST
                   (''/api/v1/salidas-programadas/add/'' @ String_int pid)
                   (Some (SalidasBody payload))] \<and>
         salidasPayload sel = Inr payload))"
  unfolding enviarProgramacion_def Let_def
  by (auto split: fetched.splits sum.splits option.splits)

lemma salidasPayload_ids:
  "salidasPayload ps = Inr xs \<Longrightarrow>
     map idNotaSalida_sp xs = map (\<lambda>p. idNotaSalida (rawNota p)) ps"
proof (induction ps arbitrary: xs)
  case Nil
  then show ?case by simp
next
  case (Cons p ps)
  then show ?case
    by (auto simp: salidaDe_def Let_def split: sum.splits option.splits)
qed

lemma guardar_Inl:
  "\<not> isSubmitting s \<Longrightarrow> validar env s = Inl m \<Longrightarrow>
     guardarProgramacion env s = (s\<lparr>submitError := Some m, submitSuccess := None\<rparr>, [])"
  by (simp add: guardarProgramacion_def)

lemma guardar_declinada:
  "\<not> isSubmitting s \<Longrightarrow> validar env s = Inr ids \<Longrightarrow> gp_window env \<Longrightarrow>
   \<not> gp_confirmado env \<Longrightarrow>
     guardarProgramacion env s = (s\<lparr>submitError := None, submitSuccess := None\<rparr>, [Confirm])"
  by (cases ids) (simp add: guardarProgramacion_def)

lemma guardar_enviada:
  "\<not> isSubmitting s \<Longrightarrow> validar env s = Inr (idV, idC, idA) \<Longrightarrow>
   gp_window env \<longrightarrow> gp_confirmado env \<Longrightarrow>
     snd (guardarProgramacion env s) =
       (if gp_window env then [Confirm] else []) @
       snd (enviarProgramacion env s (pedidosSeleccionados s) idV idC idA)"
  by (auto simp: guardarProgramacion_def Let_def case_prod_beta)

lemma enviar_nonempty:
  "snd (enviarProgramacion env s sel idV idC idA) \<noteq> []"
  unfolding enviarProgramacion_def Let_def
  by (auto split: fetched.splits sum.splits option.splits)

lemma guardar_effects_cases:
  "snd (guardarProgramacion env s) = [] \<or>
   snd (guardarProgramacion env s) = [Confirm] \<or>
   (\<exists>idV idC idA.
      snd (guardarProgramacion env s) =
        (if gp_window env then [Confirm] else []) @
        snd (enviarProgramacion env s (pedidosSeleccionados s) idV idC idA))"
proof (cases "isSubmitting s")
  case True
  then show ?thesis
    by (simp add: guardar_submitting)
next
  case False
  show ?thesis
  proof (cases "validar env s")
    case (Inl m)
    with False show ?thesis
      by (simp add: guardar_Inl)
  next
    case (Inr ids)
    obtain idV idC idA where ids: "ids = (idV, idC, idA)"
      by (cases ids) auto
    show ?thesis
    proof (cases "gp_window env \<and> \<not> gp_confirmado env")
      case True
      with False Inr show ?thesis
        by (simp add: guardar_declinada)
    next
      case False
      with \<open>\<not> isSubmitting s\<close> Inr ids
      have "snd (guardarProgramacion env s) =
        (if gp_window env then [Confirm] else []) @
        snd (enviarProgramacion env s (pedidosSeleccionados s) idV idC idA)"
        by (intro guardar_enviada) auto
      then show ?thesis
        by blast
    qed
  qed
qed

lemma enviar_all_fetch:
  "filter is_fetch (snd (enviarProgramacion env s sel idV idC idA)) =
      snd (enviarProgramacion env s sel idV idC idA)"
  unfolding enviarProgramacion_def Let_def
  by (auto split: fetched.splits sum.splits option.splits)

lemma guardar_fetch:
  assumes "\<exists>e \<in> set (snd (guardarProgramacion env s)). is_fetch e"
  shows "\<not> isSubmitting s \<and> \<not> incompleta env s \<and>
         (\<exists>idV idC idA.
            filter is_fetch (snd (guardarProgramacion env s)) =
              snd (enviarProgramacion env s (pedidosSeleccionados s) idV idC idA))"
proof -
  have sub: "\<not> isSubmitting s"
    using assms by (auto simp: guardar_submitting)
  have inc: "\<not> incompleta env s"
  proof
    assume "incompleta env s"
    from guardar_incompleta [OF sub this] assms show False
      by simp
  qed
  from guardar_effects_cases [of env s] assms obtain idV idC idA where
    "snd (guardarProgramacion env s) =
        (if gp_window env then [Confirm] else []) @
        snd (enviarProgramacion env s (pedidosSeleccionados s) idV idC idA)"
    by auto
  then have "filter is_fetch (snd (guardarProgramacion env s)) =
      snd (enviarProgramacion env s (pedidosSeleccionados s) idV idC idA)"
    by (simp add: enviar_all_fetch)
  with sub inc show ?thesis
    by blast
qed

text \<open>
  C3, amended. While a submission is in progress \<open>guardarProgramacion\<close> does nothing.
  Otherwise, whenever the delivery date is missing or earlier than today, no vehicle is
  selected, no driver is selected, no pedido is selected, or a selected pedido lacks a
  chosen location, it sends no request and sets \<open>submitError\<close> to the message of the
  first failed check; it clears \<open>submitSuccess\<close> and leaves every other state variable
  as it was. It sends a request only when none of these holds: first the POST of the
  programacion with the chosen date, then, if it gets that far, one POST with the salidas
  of exactly the selected pedidos.
\<close>

theorem guardarProgramacion_checks:
  "(isSubmitting s \<longrightarrow> guardarProgramacion env s = (s, [])) \<and>
   (\<not> isSubmitting s \<and> incompleta env s \<longrightarrow>
      guardarProgramacion env s =
        (s\<lparr>submitError := Some (mensaje_de_rechazo env s), submitSuccess := None\<rparr>, [])) \<and>
   ((\<exists>e \<in> set (snd (guardarProgramacion env s)). is_fetch e) \<longrightarrow>
      \<not> isSubmitting s \<and> \<not> incompleta env s \<and>
      (\<exists>body rest.
         filter is_fetch (snd (guardarProgramacion env s)) =
           Fetch authorizedFetch POST ''/api/v1/programacion-distribucion/add''
             (Some (ProgramacionBody body)) # rest \<and>
         fechaEntrega_pp body = fechaEntrega s \<and>
         (rest = [] \<or>
          (\<exists>pid payload.
             rest = [Fetch authorizedFetch POST
                       (''/api/v1/salidas-programadas/add/'' @ String_int pid)
                       (Some (SalidasBody payload))] \<and>
             map idNotaSalida_sp payload =
               map (\<lambda>p. idNotaSalida (rawNota p)) (pedidosSeleccionados s)))))"
proof (intro conjI impI)
  assume "isSubmitting s"
  then show "guardarProgramacion env s = (s, [])"
    by (rule guardar_submitting)
next
  assume "\<not> isSubmitting s \<and> incompleta env s"
  then show "guardarProgramacion env s =
        (s\<lparr>submitError := Some (mensaje_de_rechazo env s), submitSuccess := None\<rparr>, [])"
    by (simp add: guardar_incompleta)
next
  assume f: "\<exists>e \<in> set (snd (guardarProgramacion env s)). is_fetch e"
  from guardar_fetch [OF f] show "\<not> isSubmitting s" and "\<not> incompleta env s"
    by simp_all
  from guardar_fetch [OF f] obtain idV idC idA where
    eq: "filter is_fetch (snd (guardarProgramacion env s)) =
           snd (enviarProgramacion env s (pedidosSeleccionados s) idV idC idA)"
    by blast
  from enviar_effects [of env s "pedidosSeleccionados s" idV idC idA]
  obtain body rest where
    e: "snd (enviarProgramacion env s (pedidosSeleccionados s) idV idC idA) =
       Fetch authorizedFetch POST ''/api/v1/programacion-distribucion/add''
         (Some (ProgramacionBody body)) # rest"
    and b: "fechaEntrega_pp body = fechaEntrega s"
    and r: "rest = [] \<or>
      (\<exists>pid payload.
         rest = [Fetch authorizedFetch POST
                   (''/api/v1/salidas-programadas/add/'' @ String_int pid)
                   (Some (SalidasBody payload))] \<and>
         salidasPayload (pedidosSeleccionados s) = Inr payload)"
    by blast
  from r have r': "rest = [] \<or>
          (\<exists>pid payload.
             rest = [Fetch authorizedFetch POST
                       (''/api/v1/salidas-programadas/add/'' @ String_int pid)
                       (Some (SalidasBody payload))] \<and>
             map idNotaSalida_sp payload =
               map (\<lambda>p. idNotaSalida (rawNota p)) (pedidosSeleccionados s))"
    using salidasPayload_ids by blast
  from eq e b r' show "\<exists>body rest.
         filter is_fetch (snd (guardarProgramacion env s)) =
           Fetch authorizedFetch POST ''/api/v1/programacion-distribucion/add''
             (Some (ProgramacionBody body)) # rest \<and>
         fechaEntrega_pp body = fechaEntrega s \<and>
         (rest = [] \<or>
          (\<exists>pid payload.
             rest = [Fetch authorizedFetch POST
                       (''/api/v1/salidas-programadas/add/'' @ String_int pid)
                       (Some (SalidasBody payload))] \<and>
             map idNotaSalida_sp payload =
               map (\<lambda>p. idNotaSalida (rawNota p)) (pedidosSeleccionados s)))"
    by auto
qed

lemmas muestra_defs =
  hoy_def ProgramarSalida_inicial_def nota7_def listo_def Number_muestra_def respuesta_ok_def
  guardar_env_ok_def pedidoMapeado_def ubicacionLimpia_def isUbicacionValida_def
  sanitize_def trim_def is_space_def or_else_def String_int_def digits.simps
  pedidosSeleccionados_def truthy_def coerceStringIdToNumber_def

theorem guardarProgramacion_checks_witness:
  "guardarProgramacion guardar_env_ok (listo\<lparr>fechaEntrega := []\<rparr>) =
     (listo\<lparr>fechaEntrega := [], submitError := Some ''Selecciona una fecha de entrega.'',
           submitSuccess := None\<rparr>, []) \<and>
   \<not> incompleta guardar_env_ok listo \<and>
   length (filter is_fetch (snd (guardarProgramacion guardar_env_ok listo))) = 2"
proof -
  have a: "\<not> isSubmitting (listo\<lparr>fechaEntrega := []\<rparr>) \<and>
           incompleta guardar_env_ok (listo\<lparr>fechaEntrega := []\<rparr>)"
    by (simp add: incompleta_def muestra_defs)
  have m: "mensaje_de_rechazo guardar_env_ok (listo\<lparr>fechaEntrega := []\<rparr>) =
           ''Selecciona una fecha de entrega.''"
    by (simp add: mensaje_de_rechazo_def)
  have e: "snd (guardarProgramacion guardar_env_ok listo) =
     [Confirm,
      Fetch authorizedFetch POST ''/api/v1/programacion-distribucion/add''
        (Some (ProgramacionBody
           \<lparr>idVehiculo = 5, idConductor = 8, idAdministrador = 1,
            fechaCreacion = ''2026-01-15T10:00:00'', estadoEntrega_pp = 1,
            fechaEntrega_pp = ''2026-01-15'', status_pp = 1\<rparr>)),
      Fetch authorizedFetch POST ''/api/v1/salidas-programadas/add/41''
        (Some (SalidasBody
           [\<lparr>idNotaSalida_sp = 7, cliente_sp = None,
             ubicaciones_sp =
               \<lparr>idUbicacionCliente = Some 3, idCliente_ub = None, ubicacion = None,
                nombreDireccion = Some ''Almacen'', status_ub = None\<rparr>,
             nroSalida_sp = Some (Num 12), codigoPedido_sp = Some (Str ''P-9''),
             fechaSalidaAprobada_sp = None, fechaSalida_sp = None\<rparr>]))]"
    by (simp add: guardarProgramacion_def validar_def enviarProgramacion_def salidaDe_def
                  Let_def muestra_defs)
  then have f: "\<exists>e \<in> set (snd (guardarProgramacion guardar_env_ok listo)). is_fetch e"
    by simp
  from guardarProgramacion_checks [of "listo\<lparr>fechaEntrega := []\<rparr>" guardar_env_ok] a m
  have 1: "guardarProgramacion guardar_env_ok (listo\<lparr>fechaEntrega := []\<rparr>) =
     (listo\<lparr>fechaEntrega := [], submitError := Some ''Selecciona una fecha de entrega.'',
           submitSuccess := None\<rparr>, [])"
    by simp
  from guardarProgramacion_checks [of listo guardar_env_ok] f
  have 2: "\<not> incompleta guardar_env_ok listo"
    by blast
  from e have 3: "length (filter is_fetch (snd (guardarProgramacion guardar_env_ok listo))) = 2"
    by simp
  from 1 2 3 show ?thesis
    by blast
qed

text \<open>
  The claim C3 as stated has every failed check report an error and leave all component
  state unchanged. After a successful save the success message is in the state; a submit
  with the date missing then clears it. And while a submission is in progress a submit
  with the date missing reports nothing.
\<close>

theorem guardarProgramacion_unchanged_counterexample:
  "submitSuccess (fst (guardarProgramacion guardar_env_ok (registrado\<lparr>fechaEntrega := []\<rparr>))) \<noteq>
     submitSuccess (registrado\<lparr>fechaEntrega := []\<rparr>) \<and>
   guardarProgramacion guardar_env_ok (listo\<lparr>fechaEntrega := [], isSubmitting := True\<rparr>) =
     (listo\<lparr>fechaEntrega := [], isSubmitting := True\<rparr>, []) \<and>
   submitError (listo\<lparr>fechaEntrega := [], isSubmitting := True\<rparr>) = None"
  by (simp add: guardarProgramacion_def validar_def Let_def registrado_def listo_def
                ProgramarSalida_inicial_def)

section \<open>The confirmation dialogs\<close>

lemma onSubmit_declined:
  "\<not> ob_confirm env \<Longrightarrow>
     fst (onSubmit env s) = s \<and> (\<forall>e \<in> set (snd (onSubmit env s)). \<not> is_fetch e)"
  by (simp add: onSubmit_def)

lemma handleDelete_declined:
  "pm_window env \<Longrightarrow> \<not> pm_confirm env \<Longrightarrow> handleDelete env p s = (s, [Confirm])"
  by (simp add: handleDelete_def)

lemma guardar_declined:
  assumes "gp_window env" and "\<not> gp_confirmado env"
  shows "(\<forall>e \<in> set (snd (guardarProgramacion env s)). \<not> is_fetch e) \<and>
         (fst (guardarProgramacion env s) = s \<or>
          (\<exists>m. fst (guardarProgramacion env s) = s\<lparr>submitError := m, submitSuccess := None\<rparr>))"
proof (cases "isSubmitting s")
  case True
  then show ?thesis
    by (simp add: guardar_submitting)
next
  case False
  show ?thesis
  proof (cases "validar env s")
    case (Inl m)
    from guardar_Inl [OF False Inl] show ?thesis
      by auto
  next
    case (Inr ids)
    from guardar_declinada [OF False Inr assms] show ?thesis
      by auto
  qed
qed

lemma guardar_only_confirm:
  assumes "snd (guardarProgramacion env s) = [Confirm]"
  shows "fst (guardarProgramacion env s) = s\<lparr>submitError := None, submitSuccess := None\<rparr>"
proof (cases "isSubmitting s")
  case True
  with assms show ?thesis
    by (simp add: guardar_submitting)
next
  case False
  show ?thesis
  proof (cases "validar env s")
    case (Inl m)
    from guardar_Inl [OF False Inl] assms show ?thesis
      by simp
  next
    case (Inr ids)
    obtain idV idC idA where ids: "ids = (idV, idC, idA)"
      by (cases ids) auto
    show ?thesis
    proof (cases "gp_window env \<and> \<not> gp_confirmado env")
      case True
      with guardar_declinada [OF False Inr] show ?thesis
        by simp
    next
      case no: False
      then have "gp_window env \<longrightarrow> gp_confirmado env"
        by auto
      have "snd (enviarProgramacion env s (pedidosSeleccionados s) idV idC idA) \<noteq> [Confirm]"
        using enviar_all_fetch [of env s "pedidosSeleccionados s" idV idC idA]
        by (auto simp: filter_eq_Cons_iff)
      with guardar_enviada [OF False Inr [unfolded ids] \<open>gp_window env \<longrightarrow> gp_confirmado env\<close>]
        assms enviar_nonempty [of env s "pedidosSeleccionados s" idV idC idA]
      show ?thesis
        by (auto split: if_splits)
    qed
  qed
qed

lemma registrar_no_confirm:
  "Confirm \<notin> set (snd (snd (registrarDispositivo env c m)))"
  unfolding registrarDispositivo_def Let_def
  by (auto split: fetched.splits sum.splits option.splits)

lemma handleGuardarNuevo_no_confirm:
  "Confirm \<notin> set (snd (handleGuardarNuevo env s))"
  using registrar_no_confirm
  unfolding handleGuardarNuevo_def Let_def
  by (auto simp: case_prod_beta split: sum.splits option.splits prod.splits)

lemma handleEditSubmit_no_confirm:
  "Confirm \<notin> set (snd (handleEditSubmit env s))"
  unfolding handleEditSubmit_def Let_def
  by (auto split: option.splits)

text \<open>
  The claim C6 as stated has a declined confirm dialog leave the component state
  unchanged. In the programacion form the two messages are cleared before the dialog is
  shown: after a successful save the success message is in the state, and a submit that
  the user declines removes it.
\<close>

theorem confirm_declined_counterexample:
  "snd (guardarProgramacion (guardar_env_ok\<lparr>gp_confirmado := False\<rparr>) registrado) = [Confirm] \<and>
   fst (guardarProgramacion (guardar_env_ok\<lparr>gp_confirmado := False\<rparr>) registrado) \<noteq>
     registrado"
proof -
  have v: "validar (guardar_env_ok\<lparr>gp_confirmado := False\<rparr>) registrado = Inr (5, 8, 1)"
    by (simp add: validar_def Let_def registrado_def muestra_defs)
  have n: "\<not> isSubmitting registrado"
    by (simp add: registrado_def muestra_defs)
  have "guardarProgramacion (guardar_env_ok\<lparr>gp_confirmado := False\<rparr>) registrado =
      (registrado\<lparr>submitError := None, submitSuccess := None\<rparr>, [Confirm])"
    by (rule guardar_declinada [OF n v]) (simp_all add: guardar_env_ok_def)
  moreover have "registrado\<lparr>submitError := None, submitSuccess := None\<rparr> \<noteq> registrado"
  proof
    assume "registrado\<lparr>submitError := None, submitSuccess := None\<rparr> = registrado"
    then have "submitSuccess (registrado\<lparr>submitError := None, submitSuccess := None\<rparr>) =
               submitSuccess registrado"
      by simp
    then show False
      by (simp add: registrado_def)
  qed
  ultimately show ?thesis
    by simp
qed

text \<open>
  C6, amended. Three mutating actions are gated by a confirm dialog: when the user
  declines it, the observation form and the monitoring panel's delete action issue no
  HTTP request and leave the component state unchanged, and the programacion creation
  form issues no HTTP request and leaves the state unchanged except that \<open>submitError\<close>
  and \<open>submitSuccess\<close> have been cleared. Creating a device and changing the date of a
  programacion show no confirm dialog.
\<close>

theorem confirm_declined:
  "(\<not> ob_confirm oenv \<longrightarrow>
      fst (onSubmit oenv os) = os \<and> (\<forall>e \<in> set (snd (onSubmit oenv os)). \<not> is_fetch e)) \<and>
   (pm_window penv \<and> \<not> pm_confirm penv \<longrightarrow> handleDelete penv p ps = (ps, [Confirm])) \<and>
   (gp_window genv \<and> \<not> gp_confirmado genv \<longrightarrow>
      (\<forall>e \<in> set (snd (guardarProgramacion genv gs)). \<not> is_fetch e) \<and>
      (fst (guardarProgramacion genv gs) = gs \<or>
       (\<exists>m. fst (guardarProgramacion genv gs) =
              gs\<lparr>submitError := m, submitSuccess := None\<rparr>))) \<and>
   (snd (guardarProgramacion genv gs) = [Confirm] \<longrightarrow>
      fst (guardarProgramacion genv gs) = gs\<lparr>submitError := None, submitSuccess := None\<rparr>) \<and>
   Confirm \<notin> set (snd (handleGuardarNuevo nenv ds)) \<and>
   Confirm \<notin> set (snd (handleEditSubmit penv ps))"
  using onSubmit_declined [of oenv os] handleDelete_declined [of penv p ps]
    guardar_declined [of genv gs] guardar_only_confirm [of genv gs]
    handleGuardarNuevo_no_confirm [of nenv ds] handleEditSubmit_no_confirm [of penv ps]
  by blast

theorem confirm_declined_witness:
  "onSubmit (observacion_env_ok\<lparr>ob_confirm := False\<rparr>) observacion_lista =
     (observacion_lista, [Confirm]) \<and>
   handleDelete (panel_env_ok\<lparr>pm_confirm := False\<rparr>) prog7 editando = (editando, [Confirm]) \<and>
   guardarProgramacion (guardar_env_ok\<lparr>gp_confirmado := False\<rparr>) listo = (listo, [Confirm])"
proof -
  have v: "validar (guardar_env_ok\<lparr>gp_confirmado := False\<rparr>) listo = Inr (5, 8, 1)"
    by (simp add: validar_def Let_def muestra_defs)
  have n: "\<not> isSubmitting listo"
    by (simp add: muestra_defs)
  have g: "snd (guardarProgramacion (guardar_env_ok\<lparr>gp_confirmado := False\<rparr>) listo) = [Confirm]"
    using guardar_declinada [OF n v] by (simp add: guardar_env_ok_def)
  have l: "listo\<lparr>submitError := None, submitSuccess := None\<rparr> = listo"
    by (simp add: muestra_defs)
  have o: "snd (onSubmit (observacion_env_ok\<lparr>ob_confirm := False\<rparr>) observacion_lista) =
             [Confirm]"
    by (simp add: onSubmit_def canSubmit_def observacion_env_ok_def observacion_lista_def
                  trim_def is_space_def)
  from confirm_declined
    [of "observacion_env_ok\<lparr>ob_confirm := False\<rparr>" observacion_lista
        "panel_env_ok\<lparr>pm_confirm := False\<rparr>" prog7 editando
        "guardar_env_ok\<lparr>gp_confirmado := False\<rparr>" listo]
    g l o
  show ?thesis
    by (simp add: prod_eq_iff observacion_env_ok_def panel_env_ok_def)
qed

section \<open>Editing a delivery date in the monitoring panel\<close>

lemma normalize_None_iff:
  "normalizeIsoDateString (Some x) = None \<longleftrightarrow> trim x = []"
  by (simp add: normalizeIsoDateString_def Let_def)

lemma openEditForm_entregado:
  "estadoEntrega_pi p = Some 2 \<Longrightarrow> openEditForm env p s = s"
  by (simp add: openEditForm_def isEstadoEntregado_def)

lemma handleEditSubmit_rejects:
  assumes "trim (editFecha s) = [] \<or>
           (\<exists>d. normalizeIsoDateString (Some (editFecha s)) = Some d \<and>
                d < pm_todayIsoDate env)"
  shows "snd (handleEditSubmit env s) = [] \<and>
         (fst (handleEditSubmit env s) = s \<or>
          (\<exists>m. fst (handleEditSubmit env s) = s\<lparr>mutationError := Some m\<rparr>)) \<and>
         (editingProgramacion s \<noteq> None \<longrightarrow> mutationError (fst (handleEditSubmit env s)) \<noteq> None)"
proof (cases "editingProgramacion s")
  case None
  then show ?thesis
    by (simp add: handleEditSubmit_def)
next
  case (Some editing)
  show ?thesis
  proof (cases "normalizeIsoDateString (Some (editFecha s))")
    case None
    with Some have "handleEditSubmit env s =
        (s\<lparr>mutationError :=
             Some (''Selecciona una fecha v'' @ [a_acute] @
                   ''lida con el formato yyyy-MM-dd.'')\<rparr>, [])"
      by (simp add: handleEditSubmit_def)
    then show ?thesis
      by auto
  next
    case d: (Some d)
    with assms have "d < pm_todayIsoDate env"
      by (auto simp: normalize_None_iff [symmetric])
    with Some d have "handleEditSubmit env s =
        (s\<lparr>mutationError :=
             Some ''Selecciona una fecha igual o posterior a la fecha actual.''\<rparr>, [])"
      by (simp add: handleEditSubmit_def)
    then show ?thesis
      by auto
  qed
qed

lemma handleEditSubmit_success:
  assumes "editingProgramacion s = Some editing"
    and "normalizeIsoDateString (Some (editFecha s)) = Some d"
    and "\<not> d < pm_todayIsoDate env"
    and "pm_response env = Resolved r" and "resp_ok r"
  shows "items (fst (handleEditSubmit env s)) =
           map (\<lambda>item. if id_pi item = id_pi editing
                        then item\<lparr>fechaEntrega_pi := Some d\<rparr> else item) (items s)"
    and "snd (handleEditSubmit env s) =
           [Fetch authorizedFetch PUT
              (''/api/v1/programacion-distribucion/updateFecha/'' @ id_pi editing @ ''/'' @ d)
              None]"
  using assms by (simp_all add: handleEditSubmit_def Let_def closeEditForm_def)


text \<open>
  What the edit form of the monitoring panel does on every input. A programacion whose
  estadoEntrega is 2 (delivered) never enters edit mode: \<open>openEditForm\<close> returns the
  state as it was. \<open>handleEditSubmit\<close> sends no request when the date is blank or, as a
  string, earlier than today; it then changes nothing but \<open>mutationError\<close>, which it
  sets when a programacion is being edited. On a successful update the list keeps its
  length and order, every item with another id is unchanged, and an item with the edited
  id changes in its \<open>fechaEntrega\<close> only.
\<close>

lemma panel_edit:
  "(estadoEntrega_pi p = Some 2 \<longrightarrow> openEditForm env p s = s) \<and>
   (trim (editFecha s) = [] \<or>
    (\<exists>d. normalizeIsoDateString (Some (editFecha s)) = Some d \<and> d < pm_todayIsoDate env) \<longrightarrow>
      snd (handleEditSubmit env s) = [] \<and>
      (fst (handleEditSubmit env s) = s \<or>
       (\<exists>m. fst (handleEditSubmit env s) = s\<lparr>mutationError := Some m\<rparr>)) \<and>
      (editingProgramacion s \<noteq> None \<longrightarrow>
         mutationError (fst (handleEditSubmit env s)) \<noteq> None)) \<and>
   (\<forall>editing d r.
      editingProgramacion s = Some editing \<and>
      normalizeIsoDateString (Some (editFecha s)) = Some d \<and> \<not> d < pm_todayIsoDate env \<and>
      pm_response env = Resolved r \<and> resp_ok r \<longrightarrow>
        length (items (fst (handleEditSubmit env s))) = length (items s) \<and>
        (\<forall>i < length (items s).
           (id_pi (items s ! i) \<noteq> id_pi editing \<longrightarrow>
              items (fst (handleEditSubmit env s)) ! i = items s ! i) \<and>
           (id_pi (items s ! i) = id_pi editing \<longrightarrow>
              items (fst (handleEditSubmit env s)) ! i =
                (items s ! i)\<lparr>fechaEntrega_pi := Some d\<rparr>)))"
proof (intro conjI impI allI)
  assume "estadoEntrega_pi p = Some 2"
  then show "openEditForm env p s = s"
    by (rule openEditForm_entregado)
next
  assume a: "trim (editFecha s) = [] \<or>
    (\<exists>d. normalizeIsoDateString (Some (editFecha s)) = Some d \<and> d < pm_todayIsoDate env)"
  from handleEditSubmit_rejects [OF a]
  show "snd (handleEditSubmit env s) = []"
    and "fst (handleEditSubmit env s) = s \<or>
       (\<exists>m. fst (handleEditSubmit env s) = s\<lparr>mutationError := Some m\<rparr>)"
    by simp_all
  assume "editingProgramacion s \<noteq> None"
  with handleEditSubmit_rejects [OF a]
  show "mutationError (fst (handleEditSubmit env s)) \<noteq> None"
    by simp
next
  fix editing d r
  assume a: "editingProgramacion s = Some editing \<and>
      normalizeIsoDateString (Some (editFecha s)) = Some d \<and> \<not> d < pm_todayIsoDate env \<and>
      pm_response env = Resolved r \<and> resp_ok r"
  then have eq: "items (fst (handleEditSubmit env s)) =
           map (\<lambda>item. if id_pi item = id_pi editing
                        then item\<lparr>fechaEntrega_pi := Some d\<rparr> else item) (items s)"
    by (intro handleEditSubmit_success) auto
  show "length (items (fst (handleEditSubmit env s))) = length (items s)"
    by (simp add: eq)
  fix i
  assume "i < length (items s)"
  then show "id_pi (items s ! i) \<noteq> id_pi editing \<Longrightarrow>
              items (fst (handleEditSubmit env s)) ! i = items s ! i"
    and "id_pi (items s ! i) = id_pi editing \<Longrightarrow>
              items (fst (handleEditSubmit env s)) ! i =
                (items s ! i)\<lparr>fechaEntrega_pi := Some d\<rparr>"
    by (simp_all add: eq)
qed

lemma panel_edit_sample:
  "openEditForm panel_env_ok prog9 editando = editando \<and>
   snd (handleEditSubmit panel_env_ok (editando\<lparr>editFecha := ''2026-01-14''\<rparr>)) = [] \<and>
   items (fst (handleEditSubmit panel_env_ok editando)) =
     [prog7\<lparr>fechaEntrega_pi := Some ''2026-03-01''\<rparr>, prog9]"
proof -
  have n1: "normalizeIsoDateString (Some ''2026-01-14'') = Some ''2026-01-14''"
    and n2: "normalizeIsoDateString (Some ''2026-03-01'') = Some ''2026-03-01''"
    by (simp_all add: normalizeIsoDateString_def iso_prefix_def is_digit_def trim_def
                      is_space_def Let_def)
  have a: "estadoEntrega_pi prog9 = Some 2"
    by (simp add: prog9_def)
  have b: "\<exists>d. normalizeIsoDateString (Some (editFecha (editando\<lparr>editFecha := ''2026-01-14''\<rparr>))) =
             Some d \<and> d < pm_todayIsoDate panel_env_ok"
    by (simp add: n1 panel_env_ok_def hoy_def)
  have c: "editingProgramacion editando = Some prog7 \<and>
      normalizeIsoDateString (Some (editFecha editando)) = Some ''2026-03-01'' \<and>
      \<not> ''2026-03-01'' < pm_todayIsoDate panel_env_ok \<and>
      pm_response panel_env_ok =
        Resolved \<lparr>resp_ok = True, resp_status = 200, resp_text = Inr [], resp_json = Inr ()\<rparr> \<and>
      resp_ok \<lparr>resp_ok = True, resp_status = 200, resp_text = Inr [], resp_json = Inr ()\<rparr>"
    by (simp add: editando_def PanelMonitoreo_inicial_def n2 panel_env_ok_def hoy_def
                  respuesta_ok_def)
  have i: "items editando = [prog7, prog9]"
    by (simp add: editando_def PanelMonitoreo_inicial_def)
  have ids: "id_pi prog7 = ''7''" "id_pi prog9 = ''9''"
    by (simp_all add: prog7_def prog9_def)
  from panel_edit [of prog9 panel_env_ok editando] a
  have 1: "openEditForm panel_env_ok prog9 editando = editando"
    by blast
  from panel_edit [of p panel_env_ok "editando\<lparr>editFecha := ''2026-01-14''\<rparr>"] b
  have 2: "snd (handleEditSubmit panel_env_ok (editando\<lparr>editFecha := ''2026-01-14''\<rparr>)) = []"
    by blast
  from panel_edit [of p panel_env_ok editando] c
  have 3: "length (items (fst (handleEditSubmit panel_env_ok editando))) = length (items editando) \<and>
        (\<forall>i < length (items editando).
           (id_pi (items editando ! i) \<noteq> id_pi prog7 \<longrightarrow>
              items (fst (handleEditSubmit panel_env_ok editando)) ! i = items editando ! i) \<and>
           (id_pi (items editando ! i) = id_pi prog7 \<longrightarrow>
              items (fst (handleEditSubmit panel_env_ok editando)) ! i =
                (items editando ! i)\<lparr>fechaEntrega_pi := Some ''2026-03-01''\<rparr>))"
    by blast
  then have l: "length (items (fst (handleEditSubmit panel_env_ok editando))) = 2"
    by (simp add: i)
  from 3 have "items (fst (handleEditSubmit panel_env_ok editando)) ! 0 =
        prog7\<lparr>fechaEntrega_pi := Some ''2026-03-01''\<rparr>"
    by (simp add: i)
  moreover from 3 have "items (fst (handleEditSubmit panel_env_ok editando)) ! 1 = prog9"
    by (simp add: i ids)
  ultimately have 4: "items (fst (handleEditSubmit panel_env_ok editando)) =
     [prog7\<lparr>fechaEntrega_pi := Some ''2026-03-01''\<rparr>, prog9]"
    using l by (auto simp: list_eq_iff_nth_eq less_Suc_eq numeral_2_eq_2)
  from 1 2 4 show ?thesis
    by blast
qed

section \<open>Registering a GPS device\<close>

lemma registrar_sin_id:
  assumes "m \<noteq> []" and "traccar_id env = None"
  shows "\<exists>e. registrarDispositivo env c m = (Inl e, None, [solicitud_traccar c m])"
  using assms unfolding registrarDispositivo_def traccar_id_def solicitud_traccar_def Let_def
  by (auto split: fetched.splits sum.splits option.splits if_splits)

lemma registrar_id_vacio:
  assumes "m \<noteq> []" and "traccar_id env = Some (Str [])"
  shows "registrarDispositivo env c m =
           (Inl (JsError sin_identificador), Some (Str []), [solicitud_traccar c m])"
  using assms
  unfolding registrarDispositivo_def traccar_id_def solicitud_traccar_def Let_def
    sin_identificador_def
  by (auto split: fetched.splits sum.splits option.splits if_splits)

lemma registrar_backend_falla:
  assumes "m \<noteq> []" and "traccar_id env = Some i" and "i \<noteq> Str []" and "\<not> backend_ok env"
  shows "\<exists>e. registrarDispositivo env c m =
           (Inl e, Some i, [solicitud_traccar c m, solicitud_backend i c m])"
  using assms
  unfolding registrarDispositivo_def traccar_id_def backend_ok_def solicitud_traccar_def
    solicitud_backend_def Let_def
  by (auto split: fetched.splits sum.splits option.splits if_splits)

lemma registrar_exito:
  assumes "m \<noteq> []" and "traccar_id env = Some i" and "i \<noteq> Str []" and "backend_ok env"
  shows "registrarDispositivo env c m =
           (Inr (), Some i, [solicitud_traccar c m, solicitud_backend i c m])"
  using assms
  unfolding registrarDispositivo_def traccar_id_def backend_ok_def solicitud_traccar_def
    solicitud_backend_def Let_def
  by (auto split: fetched.splits sum.splits option.splits if_splits)

lemma handleGuardarNuevo_cases:
  fixes env s
  defines "c \<equiv> trim (nuevoCodigo s)" and "m \<equiv> trim (nuevoModelo s)"
    and "s0 \<equiv> s\<lparr>submitError_dg := None, submitSuccess_dg := None\<rparr>"
  shows
    "(\<not> truthy (gn_token env) \<and>
      handleGuardarNuevo env s =
        (s\<lparr>submitError_dg := Some ''No se encontro un token de autenticacion.''\<rparr>, [])) \<or>
     (truthy (gn_token env) \<and> (c = [] \<or> m = []) \<and>
      handleGuardarNuevo env s =
        (s0\<lparr>submitError_dg := Some ''Completa el codigo y el modelo del dispositivo.''\<rparr>, [])) \<or>
     (truthy (gn_token env) \<and> c \<noteq> [] \<and> m \<noteq> [] \<and> traccar_id env = None \<and>
      (\<exists>e. handleGuardarNuevo env s =
        (s0\<lparr>submitError_dg := Some e, isSubmitting_dg := False\<rparr>, [solicitud_traccar c m]))) \<or>
     (truthy (gn_token env) \<and> c \<noteq> [] \<and> m \<noteq> [] \<and> traccar_id env = Some (Str []) \<and>
      handleGuardarNuevo env s =
        (s0\<lparr>submitError_dg := Some sin_identificador, isSubmitting_dg := False\<rparr>,
         [solicitud_traccar c m, borrar_traccar (Str [])])) \<or>
     (\<exists>i. truthy (gn_token env) \<and> c \<noteq> [] \<and> m \<noteq> [] \<and> traccar_id env = Some i \<and>
          i \<noteq> Str [] \<and> \<not> backend_ok env \<and>
      (\<exists>e. handleGuardarNuevo env s =
        (s0\<lparr>submitError_dg := Some e, isSubmitting_dg := False\<rparr>,
         [solicitud_traccar c m, solicitud_backend i c m, borrar_traccar i]))) \<or>
     (\<exists>i. truthy (gn_token env) \<and> c \<noteq> [] \<and> m \<noteq> [] \<and> traccar_id env = Some i \<and>
          i \<noteq> Str [] \<and> backend_ok env \<and>
      handleGuardarNuevo env s =
        (s0\<lparr>submitSuccess_dg := Some ''Dispositivo registrado correctamente.'',
            nuevoCodigo := [], nuevoModelo := [], query := [], searchTerm := ''all'',
            page_dg := 0, reloadKey := reloadKey s + 1, isSubmitting_dg := False\<rparr>,
         [solicitud_traccar c m, solicitud_backend i c m]))"
proof (cases "truthy (gn_token env)")
  case False
  then show ?thesis
    by (simp add: handleGuardarNuevo_def)
next
  case tok: True
  show ?thesis
  proof (cases "c = [] \<or> m = []")
    case True
    with tok show ?thesis
      by (auto simp: handleGuardarNuevo_def Let_def sanitize_def c_def m_def s0_def)
  next
    case False
    then have c: "c \<noteq> []" and m: "m \<noteq> []"
      by auto
    have unfold: "handleGuardarNuevo env s =
      (case registrarDispositivo env c m of
             (Inr u, traccarDeviceId, requests) \<Rightarrow>
               (s0\<lparr>submitSuccess_dg := Some ''Dispositivo registrado correctamente.'',
                   nuevoCodigo := [], nuevoModelo := [], query := [],
                   searchTerm := ''all'', page_dg := 0, reloadKey := reloadKey s + 1,
                   isSubmitting_dg := False\<rparr>,
                requests)
           | (Inl e, traccarDeviceId, requests) \<Rightarrow>
               (s0\<lparr>submitError_dg :=
                      Some (message_or e ''No se pudo registrar el dispositivo.''),
                   isSubmitting_dg := False\<rparr>,
                requests @
                (case traccarDeviceId of
                   Some i \<Rightarrow> [borrar_traccar i]
                 | None \<Rightarrow> [])))"
      unfolding handleGuardarNuevo_def Let_def sanitize_def c_def m_def s0_def
        borrar_traccar_def
      using tok c [unfolded c_def] m [unfolded m_def]
      by simp
    show ?thesis
    proof (cases "traccar_id env")
      case None
      from registrar_sin_id [OF m None, of c] obtain e where
        "registrarDispositivo env c m = (Inl e, None, [solicitud_traccar c m])"
        by blast
      with unfold tok c m None show ?thesis
        by auto
    next
      case (Some i)
      show ?thesis
      proof (cases "i = Str []")
        case True
        with registrar_id_vacio [OF m, of env c] Some unfold tok c m show ?thesis
          by auto
      next
        case nonempty: False
        show ?thesis
        proof (cases "backend_ok env")
          case True
          from registrar_exito [OF m Some nonempty True, of c] unfold tok c m Some nonempty True
          show ?thesis
            by auto
        next
          case False
          from registrar_backend_falla [OF m Some nonempty False, of c] obtain e where
            "registrarDispositivo env c m =
               (Inl e, Some i, [solicitud_traccar c m, solicitud_backend i c m])"
            by blast
          with unfold tok c m Some nonempty False show ?thesis
            by auto
        qed
      qed
    qed
  qed
qed

lemma solicitudes_distintas:
  "solicitud_traccar c m \<noteq> Fetch authorizedFetch v u b"
  "borrar_traccar i \<noteq> Fetch authorizedFetch v u b"
  "solicitud_backend i c m \<noteq> Fetch traccarFetch v u b"
  "solicitud_traccar c m \<noteq> Fetch f DELETE u b"
  "solicitud_backend i c m \<noteq> Fetch f DELETE u b"
  "Fetch authorizedFetch v u b \<noteq> solicitud_traccar c m"
  "Fetch authorizedFetch v u b \<noteq> borrar_traccar i"
  "Fetch traccarFetch v u b \<noteq> solicitud_backend i c m"
  "Fetch f DELETE u b \<noteq> solicitud_traccar c m"
  "Fetch f DELETE u b \<noteq> solicitud_backend i c m"
  by (simp_all add: solicitud_traccar_def borrar_traccar_def solicitud_backend_def)

text \<open>
  C8. Creating a GPS device talks to Traccar and to the backend in a fixed order. With a
  token and a code and model that are not blank, the handler always sends a request, and
  its first request is the POST of \<open>{name: codigo, uniqueId: codigo}\<close> (and the model as
  category) to Traccar's \<open>/api/devices\<close>, sent once. When Traccar's answer lacks a
  non-empty id the handler fails: it reports an error and sends nothing to the backend.
  When Traccar answered with a non-empty id, the second request is the POST of the device
  to the backend, with \<open>codigo\<close> the Traccar id as a string, \<open>modelo\<close> the entered code
  followed by \<open>, \<close> and the model, and \<open>activo\<close> and \<open>status\<close> both 1; no request goes
  to the backend otherwise. When both calls succeed these two are the only requests, the
  success message is set and the form is reset; when the backend call fails an error is
  reported and the form is kept. The success message and the reset of the form occur only
  when both calls succeed. Without a token, or with a blank code or model, no request is
  sent and an error is reported.
\<close>

theorem handleGuardarNuevo_order:
  fixes env s
  defines "c \<equiv> trim (nuevoCodigo s)" and "m \<equiv> trim (nuevoModelo s)"
    and "effs \<equiv> snd (handleGuardarNuevo env s)" and "s' \<equiv> fst (handleGuardarNuevo env s)"
  shows
    "(effs = [] \<or> hd effs = solicitud_traccar c m) \<and>
     (\<forall>v u b. Fetch authorizedFetch v u b \<in> set effs \<longrightarrow>
        (\<exists>i. traccar_id env = Some i \<and> i \<noteq> Str [] \<and>
             take 2 effs = [solicitud_traccar c m, solicitud_backend i c m] \<and>
             Fetch authorizedFetch v u b = solicitud_backend i c m)) \<and>
     (truthy (gn_token env) \<and> c \<noteq> [] \<and> m \<noteq> [] \<and>
      (traccar_id env = None \<or> traccar_id env = Some (Str [])) \<longrightarrow>
        submitError_dg s' \<noteq> None \<and> submitSuccess_dg s' = None \<and>
        (\<forall>v u b. Fetch authorizedFetch v u b \<notin> set effs)) \<and>
     ((truthy (gn_token env) \<and> submitSuccess_dg s' \<noteq> None) \<or>
      nuevoCodigo s' \<noteq> nuevoCodigo s \<or> nuevoModelo s' \<noteq> nuevoModelo s \<longrightarrow>
        (\<exists>i. traccar_id env = Some i \<and> i \<noteq> Str []) \<and> backend_ok env) \<and>
     (truthy (gn_token env) \<and> c \<noteq> [] \<and> m \<noteq> [] \<and>
      (\<exists>i. traccar_id env = Some i \<and> i \<noteq> Str []) \<and> backend_ok env \<longrightarrow>
        submitSuccess_dg s' = Some ''Dispositivo registrado correctamente.'' \<and>
        nuevoCodigo s' = [] \<and> nuevoModelo s' = []) \<and>
     (\<not> truthy (gn_token env) \<or> c = [] \<or> m = [] \<longrightarrow>
        effs = [] \<and> submitError_dg s' \<noteq> None) \<and>
     (truthy (gn_token env) \<and> c \<noteq> [] \<and> m \<noteq> [] \<longrightarrow>
        effs \<noteq> [] \<and> hd effs = solicitud_traccar c m \<and>
        solicitud_traccar c m \<notin> set (tl effs)) \<and>
     (\<forall>i. truthy (gn_token env) \<and> c \<noteq> [] \<and> m \<noteq> [] \<and>
          traccar_id env = Some i \<and> i \<noteq> Str [] \<longrightarrow>
        take 2 effs = [solicitud_traccar c m, solicitud_backend i c m] \<and>
        (backend_ok env \<longrightarrow>
           effs = [solicitud_traccar c m, solicitud_backend i c m] \<and>
           submitError_dg s' = None) \<and>
        (\<not> backend_ok env \<longrightarrow>
           submitError_dg s' \<noteq> None \<and> submitSuccess_dg s' = None \<and>
           nuevoCodigo s' = nuevoCodigo s \<and> nuevoModelo s' = nuevoModelo s)) \<and>
     solicitud_traccar c m =
       Fetch traccarFetch POST ''/api/devices''
         (Some (TraccarDeviceBody \<lparr>name_tp = c, uniqueId = c, category = Some m\<rparr>)) \<and>
     (\<forall>i. solicitud_backend i c m =
        Fetch authorizedFetch POST ''/api/v1/dispositivosGps/add''
          (Some (DispositivoBody
             \<lparr>codigo_dp = String_of i, modelo_dp = c @ '', '' @ m, activo_dp = 1,
              status_dp = 1\<rparr>)))"
proof -
  have d: "solicitud_traccar x y \<noteq> solicitud_backend i x y"
    "solicitud_traccar x y \<noteq> borrar_traccar i" for i x y
    by (simp_all add: solicitud_traccar_def solicitud_backend_def borrar_traccar_def)
  have shapes: "solicitud_traccar c m =
       Fetch traccarFetch POST ''/api/devices''
         (Some (TraccarDeviceBody \<lparr>name_tp = c, uniqueId = c, category = Some m\<rparr>)) \<and>
     (\<forall>i. solicitud_backend i c m =
        Fetch authorizedFetch POST ''/api/v1/dispositivosGps/add''
          (Some (DispositivoBody
             \<lparr>codigo_dp = String_of i, modelo_dp = c @ '', '' @ m, activo_dp = 1,
              status_dp = 1\<rparr>)))"
    by (simp add: solicitud_traccar_def solicitud_backend_def)
  have main: "(effs = [] \<or> hd effs = solicitud_traccar c m) \<and>
     (\<forall>v u b. Fetch authorizedFetch v u b \<in> set effs \<longrightarrow>
        (\<exists>i. traccar_id env = Some i \<and> i \<noteq> Str [] \<and>
             take 2 effs = [solicitud_traccar c m, solicitud_backend i c m] \<and>
             Fetch authorizedFetch v u b = solicitud_backend i c m)) \<and>
     (truthy (gn_token env) \<and> c \<noteq> [] \<and> m \<noteq> [] \<and>
      (traccar_id env = None \<or> traccar_id env = Some (Str [])) \<longrightarrow>
        submitError_dg s' \<noteq> None \<and> submitSuccess_dg s' = None \<and>
        (\<forall>v u b. Fetch authorizedFetch v u b \<notin> set effs)) \<and>
     ((truthy (gn_token env) \<and> submitSuccess_dg s' \<noteq> None) \<or>
      nuevoCodigo s' \<noteq> nuevoCodigo s \<or> nuevoModelo s' \<noteq> nuevoModelo s \<longrightarrow>
        (\<exists>i. traccar_id env = Some i \<and> i \<noteq> Str []) \<and> backend_ok env) \<and>
     (truthy (gn_token env) \<and> c \<noteq> [] \<and> m \<noteq> [] \<and>
      (\<exists>i. traccar_id env = Some i \<and> i \<noteq> Str []) \<and> backend_ok env \<longrightarrow>
        submitSuccess_dg s' = Some ''Dispositivo registrado correctamente.'' \<and>
        nuevoCodigo s' = [] \<and> nuevoModelo s' = []) \<and>
     (\<not> truthy (gn_token env) \<or> c = [] \<or> m = [] \<longrightarrow>
        effs = [] \<and> submitError_dg s' \<noteq> None) \<and>
     (truthy (gn_token env) \<and> c \<noteq> [] \<and> m \<noteq> [] \<longrightarrow>
        effs \<noteq> [] \<and> hd effs = solicitud_traccar c m \<and>
        solicitud_traccar c m \<notin> set (tl effs)) \<and>
     (\<forall>i. truthy (gn_token env) \<and> c \<noteq> [] \<and> m \<noteq> [] \<and>
          traccar_id env = Some i \<and> i \<noteq> Str [] \<longrightarrow>
        take 2 effs = [solicitud_traccar c m, solicitud_backend i c m] \<and>
        (backend_ok env \<longrightarrow>
           effs = [solicitud_traccar c m, solicitud_backend i c m] \<and>
           submitError_dg s' = None) \<and>
        (\<not> backend_ok env \<longrightarrow>
           submitError_dg s' \<noteq> None \<and> submitSuccess_dg s' = None \<and>
           nuevoCodigo s' = nuevoCodigo s \<and> nuevoModelo s' = nuevoModelo s))"
    using handleGuardarNuevo_cases [of env s]
    unfolding c_def m_def effs_def s'_def
    by (elim disjE exE conjE) (simp_all add: solicitudes_distintas d)
  from main shapes show ?thesis
    unfolding c_def m_def effs_def s'_def
    by (elim conjE, intro conjI) assumption+
qed

theorem handleGuardarNuevo_order_witness:
  "snd (handleGuardarNuevo nuevo_env_ok formulario) =
     [Fetch traccarFetch POST ''/api/devices''
        (Some (TraccarDeviceBody
           \<lparr>name_tp = ''GPS-01'', uniqueId = ''GPS-01'', category = Some ''TK103''\<rparr>)),
      Fetch authorizedFetch POST ''/api/v1/dispositivosGps/add''
        (Some (DispositivoBody
           \<lparr>codigo_dp = ''15'', modelo_dp = ''GPS-01, TK103'', activo_dp = 1,
            status_dp = 1\<rparr>))] \<and>
   submitSuccess_dg (fst (handleGuardarNuevo nuevo_env_ok formulario)) =
     Some ''Dispositivo registrado correctamente.'' \<and>
   nuevoCodigo (fst (handleGuardarNuevo nuevo_env_ok formulario)) = [] \<and>
   snd (handleGuardarNuevo (nuevo_env_ok\<lparr>gn_token := None\<rparr>) formulario) = []"
proof -
  have t: "trim (nuevoCodigo formulario) = ''GPS-01''" "trim (nuevoModelo formulario) = ''TK103''"
    by (simp_all add: formulario_def Dispositivos_inicial_def trim_def is_space_def)
  have i: "traccar_id nuevo_env_ok = Some (Num 15)" and b: "backend_ok nuevo_env_ok"
    and k: "truthy (gn_token nuevo_env_ok)"
    and n: "\<not> truthy (gn_token (nuevo_env_ok\<lparr>gn_token := None\<rparr>))"
    by (simp_all add: traccar_id_def backend_ok_def nuevo_env_ok_def respuesta_ok_def
                      truthy_def)
  have q: "String_of (Num 15) = ''15''"
    by (simp add: String_int_def digits.simps)
  from handleGuardarNuevo_order [of nuevo_env_ok formulario] t i b k
  have 1: "snd (handleGuardarNuevo nuevo_env_ok formulario) =
     [solicitud_traccar ''GPS-01'' ''TK103'', solicitud_backend (Num 15) ''GPS-01'' ''TK103''] \<and>
     submitSuccess_dg (fst (handleGuardarNuevo nuevo_env_ok formulario)) =
       Some ''Dispositivo registrado correctamente.'' \<and>
     nuevoCodigo (fst (handleGuardarNuevo nuevo_env_ok formulario)) = []"
    by simp
  from handleGuardarNuevo_order [of "nuevo_env_ok\<lparr>gn_token := None\<rparr>" formulario] n
  have 2: "snd (handleGuardarNuevo (nuevo_env_ok\<lparr>gn_token := None\<rparr>) formulario) = []"
    by simp
  from 1 2 q show ?thesis
    by (simp add: solicitud_traccar_def solicitud_backend_def)
qed

text \<open>
  The compensation of \<open>handleGuardarNuevo\<close>: the \<open>DELETE\<close> is sent exactly when the
  \<open>try\<close> fails after \<open>traccarDeviceId\<close> has received a value that is neither
  \<open>undefined\<close> nor \<open>null\<close>, and it is then the last request.
\<close>

lemma handleGuardarNuevo_borrar:
  "(\<exists>u b. Fetch traccarFetch DELETE u b \<in> set (snd (handleGuardarNuevo env s))) \<longleftrightarrow>
     truthy (gn_token env) \<and> trim (nuevoCodigo s) \<noteq> [] \<and> trim (nuevoModelo s) \<noteq> [] \<and>
     (\<exists>i. traccar_id env = Some i \<and> (i = Str [] \<or> \<not> backend_ok env))"
  using handleGuardarNuevo_cases [of env s]
  by (elim disjE exE conjE) (auto simp: solicitudes_distintas borrar_traccar_def)

lemma handleGuardarNuevo_borrar_ultimo:
  "Fetch traccarFetch DELETE u b \<in> set (snd (handleGuardarNuevo env s)) \<Longrightarrow>
     \<exists>i. traccar_id env = Some i \<and> last (snd (handleGuardarNuevo env s)) = borrar_traccar i \<and>
         Fetch traccarFetch DELETE u b = borrar_traccar i"
  using handleGuardarNuevo_cases [of env s]
  by (elim disjE exE conjE) (auto simp: solicitudes_distintas)

text \<open>
  C9, at the input where the code departs from it. Traccar answers \<open>ok\<close> with the id
  \<open>''\<close>. The handler throws "Traccar no devolvio un identificador": by its own check no
  id was returned. The \<open>catch\<close> tests the id against \<open>undefined\<close> and \<open>null\<close> only, so
  it still sends a \<open>DELETE\<close>, to \<open>/api/devices/\<close>, before it reports the error.
\<close>

theorem handleGuardarNuevo_id_vacio:
  "handleGuardarNuevo (nuevo_env_ok\<lparr>gn_traccar := respuesta_ok (Some (Str []))\<rparr>) formulario =
     (formulario\<lparr>submitError_dg := Some sin_identificador\<rparr>,
      [solicitud_traccar ''GPS-01'' ''TK103'',
       Fetch traccarFetch DELETE ''/api/devices/'' None])"
proof -
  have t: "trim (nuevoCodigo formulario) = ''GPS-01''" "trim (nuevoModelo formulario) = ''TK103''"
    by (simp_all add: formulario_def Dispositivos_inicial_def trim_def is_space_def)
  have i: "traccar_id (nuevo_env_ok\<lparr>gn_traccar := respuesta_ok (Some (Str []))\<rparr>) =
             Some (Str [])"
    and k: "truthy (gn_token (nuevo_env_ok\<lparr>gn_traccar := respuesta_ok (Some (Str []))\<rparr>))"
    by (simp_all add: traccar_id_def nuevo_env_ok_def respuesta_ok_def truthy_def)
  have f: "formulario\<lparr>submitError_dg := None, submitSuccess_dg := None,
             submitError_dg := Some sin_identificador, isSubmitting_dg := False\<rparr> =
           formulario\<lparr>submitError_dg := Some sin_identificador\<rparr>"
    by (simp add: formulario_def Dispositivos_inicial_def)
  have d: "borrar_traccar (Str []) = Fetch traccarFetch DELETE ''/api/devices/'' None"
    by (simp add: borrar_traccar_def encodeURIComponent_def)
  from handleGuardarNuevo_cases
         [of "nuevo_env_ok\<lparr>gn_traccar := respuesta_ok (Some (Str []))\<rparr>" formulario] t i k
  have "handleGuardarNuevo (nuevo_env_ok\<lparr>gn_traccar := respuesta_ok (Some (Str []))\<rparr>)
          formulario =
        (formulario\<lparr>submitError_dg := None, submitSuccess_dg := None,
             submitError_dg := Some sin_identificador, isSubmitting_dg := False\<rparr>,
         [solicitud_traccar ''GPS-01'' ''TK103'', borrar_traccar (Str [])])"
    by auto
  with f d show ?thesis
    by simp
qed

section \<open>The pages of the lists\<close>

lemma ceil_div_ceiling:
  "ceil_div a b = \<lceil>real_of_int a / real_of_int b\<rceil>"
proof -
  have "\<lceil>real_of_int a / real_of_int b\<rceil> = - \<lfloor>real_of_int (- a) / real_of_int b\<rfloor>"
    by (simp add: ceiling_def)
  also have "\<dots> = - ((- a) div b)"
    by (simp only: floor_divide_of_int_eq)
  finally show ?thesis
    by (simp add: ceil_div_def)
qed

lemma obtenerDispositivos_request:
  "truthy (fe_token env) \<Longrightarrow>
     \<exists>t. snd (obtenerDispositivos env s) =
       [Fetch authorizedFetch GET
          (''/api/v1/dispositivosGps/'' @ t @ ''?page='' @ String_int (max (page_dg s) 0) @
           ''&size='' @ String_int (size_dg s)) None]"
  by (simp add: obtenerDispositivos_def Let_def)

lemma obtenerNotasSalida_request:
  "truthy (fe_token env) \<Longrightarrow>
     snd (obtenerNotasSalida env s) =
       [Fetch authorizedFetch GET
          (''/api/v1/notas-salidas/obtener?page='' @ String_int (max 0 (pedidosPage s)) @
           ''&size='' @ String_int (pedidosSize s)) None]"
  by (simp add: obtenerNotasSalida_def Let_def)

lemma handlePreviousPage_range:
  "0 \<le> page_dg s \<Longrightarrow> 0 \<le> page_dg (handlePreviousPage s)"
  "0 \<le> pedidosPage p \<Longrightarrow> 0 \<le> pedidosPage (handlePreviousPedidosPage p)"
  by (simp_all add: handlePreviousPage_def handlePreviousPedidosPage_def)

lemma handleNextPage_last:
  "isLastPage s \<Longrightarrow> handleNextPage s = s"
  "isLastPedidosPage p \<Longrightarrow> handleNextPedidosPage p = p"
  by (simp_all add: handleNextPage_def handleNextPedidosPage_def)

lemma dispositivos_totals_reported:
  "totalPages_pg pd = Some n \<Longrightarrow>
     fst (snd (snd (dispositivos_totals p sz (DataPage pd)))) = n"
  by (simp add: dispositivos_totals_def Let_def)

lemma dispositivos_totals_derived:
  "totalPages_pg pd = None \<Longrightarrow> totalElements_pg pd = Some n \<Longrightarrow> 0 < n \<Longrightarrow> 0 < sz \<Longrightarrow>
     fst (snd (snd (dispositivos_totals p sz (DataPage pd)))) =
       \<lceil>real_of_int n / real_of_int sz\<rceil>"
  by (simp add: dispositivos_totals_def Let_def ceil_div_ceiling)

lemma notas_totals_reported:
  "totalPages_pg pd = Some n \<Longrightarrow> fst (snd (notas_totals p (DataPage pd))) = n"
  by (simp add: notas_totals_def Let_def)

lemma notas_totals_not_derived:
  "totalPages_pg pd = None \<Longrightarrow>
     fst (snd (notas_totals p (DataPage pd))) =
       (if content pd = None \<or> content pd = Some [] then 0 else 1)"
  by (auto simp: notas_totals_def Let_def split: option.splits)

lemma obtenerDispositivos_reset:
  assumes "truthy (fe_token env)" and "fe_mounted env"
    and "fe_outcome env = Answered r" and "resp_ok r"
    and "resp_json r = Inr (Some j)" and "code_ar j = None \<or> code_ar j = Some 0 \<or> code_ar j = Some 200"
    and "data_ar j = DataPage pd" and "totalPages_pg pd = Some n"
    and "0 < n" and "n \<le> page_dg s"
  shows "page_dg (fst (obtenerDispositivos env s)) = n - 1"
proof -
  from assms(9,10) have m: "max (page_dg s) 0 = page_dg s"
    by simp
  from assms(8) obtain a b c d where
    t: "dispositivos_totals (page_dg s) (size_dg s) (DataPage pd) = (a, b, n, c, d)"
    by (simp add: dispositivos_totals_def Let_def)
  from assms(6) have
    c: "\<not> (case code_ar j of Some c \<Rightarrow> c \<noteq> 0 \<and> c \<noteq> 200 | None \<Rightarrow> False)"
    by auto
  show ?thesis
    using assms(1-5,7,9,10) c
    by (simp add: obtenerDispositivos_def Let_def m t)
qed

lemma obtenerNotasSalida_reset:
  assumes "truthy (fe_token env)" and "fe_mounted env"
    and "fe_outcome env = Answered r" and "resp_ok r"
    and "resp_json r = Inr (Some j)" and "code_ar j = None \<or> code_ar j = Some 0 \<or> code_ar j = Some 200"
    and "data_ar j = DataPage pd" and "totalPages_pg pd = Some n"
    and "0 < n" and "n \<le> pedidosPage s"
  shows "pedidosPage (fst (obtenerNotasSalida env s)) = n - 1"
proof -
  from assms(9,10) have m: "max 0 (pedidosPage s) = pedidosPage s"
    by simp
  from assms(8) obtain a b c where
    t: "notas_totals (pedidosPage s) (DataPage pd) = (a, n, b, c)"
    by (simp add: notas_totals_def Let_def)
  from assms(6) have
    c: "\<not> (case code_ar j of Some c \<Rightarrow> c \<noteq> 0 \<and> c \<noteq> 200 | None \<Rightarrow> False)"
    by auto
  show ?thesis
    using assms(1-5,7,9,10) c
    by (simp add: obtenerNotasSalida_def Let_def m t)
qed

text \<open>
  C7, at the input where the code departs from it. The orders endpoint answers the first
  page of size 8 with eight notas, \<open>totalElements\<close> 20, \<open>last\<close> false and no
  \<open>totalPages\<close>. The claim derives \<open>\<lceil>20 / 8\<rceil> = 3\<close> pages, as the devices page
  does. The orders page stores 1: page 0 then counts as the last page although the answer
  said it is not, and the Next handler does nothing.
\<close>

theorem obtenerNotasSalida_sin_totalPages:
  "snd (obtenerNotasSalida notas_env (ProgramarSalida_inicial hoy)) =
     [Fetch authorizedFetch GET ''/api/v1/notas-salidas/obtener?page=0&size=8'' None] \<and>
   pedidosTotalPages (fst (obtenerNotasSalida notas_env (ProgramarSalida_inicial hoy))) = 1 \<and>
   pedidosTotalElements (fst (obtenerNotasSalida notas_env (ProgramarSalida_inicial hoy))) = 20 \<and>
   pedidosSize (fst (obtenerNotasSalida notas_env (ProgramarSalida_inicial hoy))) = 8 \<and>
   ceil_div 20 8 = 3 \<and>
   length (pedidos (fst (obtenerNotasSalida notas_env (ProgramarSalida_inicial hoy)))) = 8 \<and>
   \<not> esUltimaPaginaPedidos (fst (obtenerNotasSalida notas_env (ProgramarSalida_inicial hoy))) \<and>
   isLastPedidosPage (fst (obtenerNotasSalida notas_env (ProgramarSalida_inicial hoy))) \<and>
   handleNextPedidosPage (fst (obtenerNotasSalida notas_env (ProgramarSalida_inicial hoy))) =
     fst (obtenerNotasSalida notas_env (ProgramarSalida_inicial hoy)) \<and>
   totalPaginasVisibles (fst (obtenerNotasSalida notas_env (ProgramarSalida_inicial hoy))) = 1"
proof -
  have t: "notas_totals 0 (DataPage pagina_sin_totalPages) =
             (map (\<lambda>i. nota7\<lparr>idNotaSalida := i\<rparr>) [1, 2, 3, 4, 5, 6, 7, 8], 1, 20, False)"
    by (simp add: notas_totals_def pagina_sin_totalPages_def Let_def)
  have s: "fst (obtenerNotasSalida notas_env (ProgramarSalida_inicial hoy)) =
     (ProgramarSalida_inicial hoy)
       \<lparr>pedidos := map pedidoMapeado
                     (map (\<lambda>i. nota7\<lparr>idNotaSalida := i\<rparr>) [1, 2, 3, 4, 5, 6, 7, 8]),
        pedidosTotalElements := 20, pedidosTotalPages := 1,
        esUltimaPaginaPedidos := False\<rparr>"
    by (simp add: obtenerNotasSalida_def notas_env_def ProgramarSalida_inicial_def Let_def
                  truthy_def t)
  have r: "snd (obtenerNotasSalida notas_env (ProgramarSalida_inicial hoy)) =
     [Fetch authorizedFetch GET ''/api/v1/notas-salidas/obtener?page=0&size=8'' None]"
    by (simp add: obtenerNotasSalida_def notas_env_def ProgramarSalida_inicial_def Let_def
                  truthy_def String_int_def digits.simps)
  have c: "ceil_div 20 8 = 3"
    by (simp add: ceil_div_def)
  show ?thesis
    unfolding s
    using r c
    by (simp add: ProgramarSalida_inicial_def isLastPedidosPage_def handleNextPedidosPage_def
                  totalPaginasVisibles_def)
qed

end
